theory Spec2Isabelle
  imports Main "HOL-Library.Multiset"
begin

section \<open>JavaScript values and errors\<close>

text \<open>
  The values that flow through the pipeline: request fields, entity fields and identifiers.
  \<open>JUndefined\<close> is an absent property, \<open>JDate t\<close> a \<open>Date\<close> object holding the clock
  reading \<open>t\<close>.  Numbers are the integers: the only numbers the code produces are the
  in-memory adapter's counter values, on which the arithmetic of JavaScript numbers is
  exact below \<open>2 ^ 53\<close> and whose string form is the decimal numeral.  Objects and arrays
  of a JSON body are left out; the interface \<open>CreateUserRequest\<close> has only strings.
\<close>

datatype jsval = JUndefined | JNull | JBool bool | JNum int | JStr string | JDate int

text \<open>JavaScript truthiness, as tested by \<open>!v\<close> and \<open>v || w\<close>.\<close>

fun truthy :: "jsval \<Rightarrow> bool" where
  "truthy JUndefined = False"
| "truthy JNull = False"
| "truthy (JBool b) = b"
| "truthy (JNum n) = (n \<noteq> 0)"
| "truthy (JStr s) = (s \<noteq> [])"
| "truthy (JDate t) = True"

text \<open>\<open>a || b\<close>\<close>

definition js_or :: "jsval \<Rightarrow> jsval \<Rightarrow> jsval" where
  "js_or a b = (if truthy a then a else b)"

text \<open>
  A thrown value: an error object with the name of its class and its message.
  \<open>new Error(msg)\<close> is \<open>new_Error msg\<close>; a rejected promise is the \<open>Inl\<close> branch of a sum.
\<close>

datatype js_error = JsError (err_name: string) (message: string)

definition new_Error :: "string \<Rightarrow> js_error" where
  "new_Error msg = JsError ''Error'' msg"

section \<open>Domain: entity and DTO\<close>

record UserEntity =
  e_id :: jsval
  e_name :: jsval
  e_email :: jsval
  e_role :: jsval
  e_createdAt :: jsval

text \<open>
  The constructor of \<open>user.entity.js\<close>; \<open>now\<close> is the clock reading that
  \<open>new Date()\<close> makes.
\<close>

definition new_UserEntity ::
  "int \<Rightarrow> jsval \<Rightarrow> jsval \<Rightarrow> jsval \<Rightarrow> jsval \<Rightarrow> jsval \<Rightarrow> UserEntity" where
  "new_UserEntity now i n e r c =
     \<lparr>e_id = i, e_name = n, e_email = e, e_role = r, e_createdAt = js_or c (JDate now)\<rparr>"

definition isAdmin :: "UserEntity \<Rightarrow> bool" where
  "isAdmin u = (e_role u = JStr ''admin'')"

record UserDTO =
  d_id :: jsval
  d_name :: jsval
  d_email :: jsval
  d_role :: jsval

section \<open>Mapper (user.mapper.ts)\<close>

definition toDTO :: "UserEntity \<Rightarrow> UserDTO" where
  "toDTO userEntity =
     \<lparr>d_id = e_id userEntity, d_name = e_name userEntity,
      d_email = e_email userEntity, d_role = e_role userEntity\<rparr>"

text \<open>
  A raw record (\<open>data: any\<close>) is an object: a finite map from property names to values.
  Reading a property that the object does not have gives \<open>undefined\<close>.
\<close>

type_synonym raw_record = "string \<rightharpoonup> jsval"

definition get_prop :: "raw_record \<Rightarrow> string \<Rightarrow> jsval" where
  "get_prop data k = (case data k of None \<Rightarrow> JUndefined | Some v \<Rightarrow> v)"

text \<open>The TypeScript mapper passes four arguments: \<open>createdAt\<close> is not forwarded.\<close>

definition toEntity :: "int \<Rightarrow> raw_record \<Rightarrow> UserEntity" where
  "toEntity now data =
     new_UserEntity now (get_prop data ''id'') (get_prop data ''name'') (get_prop data ''email'')
       (get_prop data ''role'') JUndefined"

section \<open>Repository port\<close>

text \<open>
  The port \<open>IUserRepository\<close>: three asynchronous operations.  An adapter owns a state
  of type \<open>'s\<close>; each operation takes the clock reading and the state and returns its
  outcome (a rejection on the left) with the state it leaves behind.
\<close>

record 's IUserRepository =
  create :: "int \<Rightarrow> 's \<Rightarrow> UserEntity \<Rightarrow> (js_error + UserEntity) \<times> 's"
  findAll :: "int \<Rightarrow> 's \<Rightarrow> (js_error + UserEntity list) \<times> 's"
  findById :: "int \<Rightarrow> 's \<Rightarrow> jsval \<Rightarrow> (js_error + UserEntity option) \<times> 's"

section \<open>Use cases\<close>

record CreateUserRequest =
  rq_name :: jsval
  rq_email :: jsval
  rq_role :: jsval

definition CreateUserUseCase_execute ::
  "'s IUserRepository \<Rightarrow> int \<Rightarrow> 's \<Rightarrow> CreateUserRequest \<Rightarrow> (js_error + UserDTO) \<times> 's" where
  "CreateUserUseCase_execute userRepository now st data =
     (if \<not> truthy (rq_name data) \<or> \<not> truthy (rq_email data)
      then (Inl (new_Error ''Name and email are required''), st)
      else
        let newUserEntity =
              new_UserEntity now JNull (rq_name data) (rq_email data)
                (js_or (rq_role data) (JStr ''user'')) JUndefined
        in case create userRepository now st newUserEntity of
             (Inl err, st') \<Rightarrow> (Inl err, st')
           | (Inr createdUser, st') \<Rightarrow> (Inr (toDTO createdUser), st'))"

definition GetAllUsersUseCase_execute ::
  "'s IUserRepository \<Rightarrow> int \<Rightarrow> 's \<Rightarrow> (js_error + UserDTO list) \<times> 's" where
  "GetAllUsersUseCase_execute userRepository now st =
     (case findAll userRepository now st of
        (Inl err, st') \<Rightarrow> (Inl err, st')
      | (Inr users, st') \<Rightarrow> (Inr (map toDTO users), st'))"

definition GetUserByIdUseCase_execute ::
  "'s IUserRepository \<Rightarrow> int \<Rightarrow> 's \<Rightarrow> jsval \<Rightarrow> (js_error + UserDTO) \<times> 's" where
  "GetUserByIdUseCase_execute userRepository now st i =
     (case findById userRepository now st i of
        (Inl err, st') \<Rightarrow> (Inl err, st')
      | (Inr None, st') \<Rightarrow> (Inl (new_Error ''User not found''), st')
      | (Inr (Some user), st') \<Rightarrow> (Inr (toDTO user), st'))"

section \<open>Controllers and the response envelope\<close>

datatype payload = NoData | OneUser UserDTO | ManyUsers "UserDTO list"

record Response =
  statusCode :: nat
  success :: bool
  r_message :: string
  r_data :: payload

definition sendResponse :: "nat \<Rightarrow> bool \<Rightarrow> string \<Rightarrow> payload \<Rightarrow> Response" where
  "sendResponse code ok msg d =
     \<lparr>statusCode = code, success = ok, r_message = msg, r_data = d\<rparr>"

definition CreateUserController_handle ::
  "'s IUserRepository \<Rightarrow> int \<Rightarrow> 's \<Rightarrow> CreateUserRequest \<Rightarrow> Response \<times> 's" where
  "CreateUserController_handle userRepository now st body =
     (case CreateUserUseCase_execute userRepository now st body of
        (Inr userDTO, st') \<Rightarrow>
          (sendResponse 201 True ''User created successfully'' (OneUser userDTO), st')
      | (Inl err, st') \<Rightarrow> (sendResponse 400 False (message err) NoData, st'))"

definition GetUsersController_getAll ::
  "'s IUserRepository \<Rightarrow> int \<Rightarrow> 's \<Rightarrow> Response \<times> 's" where
  "GetUsersController_getAll userRepository now st =
     (case GetAllUsersUseCase_execute userRepository now st of
        (Inr usersDTO, st') \<Rightarrow>
          (sendResponse 200 True ''Users retrieved successfully'' (ManyUsers usersDTO), st')
      | (Inl err, st') \<Rightarrow> (sendResponse 500 False (message err) NoData, st'))"

definition GetUsersController_getById ::
  "'s IUserRepository \<Rightarrow> int \<Rightarrow> 's \<Rightarrow> jsval \<Rightarrow> Response \<times> 's" where
  "GetUsersController_getById userRepository now st i =
     (case GetUserByIdUseCase_execute userRepository now st i of
        (Inr userDTO, st') \<Rightarrow>
          (sendResponse 200 True ''User retrieved successfully'' (OneUser userDTO), st')
      | (Inl err, st') \<Rightarrow>
          (if message err = ''User not found''
           then (sendResponse 404 False (message err) NoData, st')
           else (sendResponse 500 False (message err) NoData, st')))"

section \<open>parseInt\<close>

text \<open>
  \<open>parseInt(string)\<close> with no radix argument, after ECMAScript: leading white space is
  skipped, one sign is read, a \<open>0x\<close> or \<open>0X\<close> prefix selects radix 16 (otherwise the radix
  is 10), and the longest run of digits of that radix is the value; with no digit the
  result is \<open>NaN\<close>, which is \<open>None\<close> here.  Characters are the 8-bit characters of
  \<open>string\<close>, so the white space characters are TAB, LF, VT, FF, CR, SP and NBSP.
\<close>

definition is_ws :: "char \<Rightarrow> bool" where
  "is_ws c = (c \<in> set [CHR 0x09, CHR 0x0A, CHR 0x0B, CHR 0x0C, CHR 0x0D, CHR 0x20, CHR 0xA0])"

definition digit_value :: "char \<Rightarrow> nat option" where
  "digit_value c =
     (let k = (of_char c :: nat) in
      if 48 \<le> k \<and> k \<le> 57 then Some (k - 48)
      else if 97 \<le> k \<and> k \<le> 122 then Some (k - 87)
      else if 65 \<le> k \<and> k \<le> 90 then Some (k - 55)
      else None)"

definition is_digit :: "nat \<Rightarrow> char \<Rightarrow> bool" where
  "is_digit R c = (case digit_value c of None \<Rightarrow> False | Some d \<Rightarrow> d < R)"

definition digit_of :: "char \<Rightarrow> nat" where
  "digit_of c = (case digit_value c of None \<Rightarrow> 0 | Some d \<Rightarrow> d)"

definition radix_value :: "nat \<Rightarrow> string \<Rightarrow> nat" where
  "radix_value R Z = foldl (\<lambda>a c. a * R + digit_of c) 0 Z"

definition strip_sign :: "string \<Rightarrow> int \<times> string" where
  "strip_sign S =
     (case S of
        [] \<Rightarrow> (1, [])
      | c # r \<Rightarrow> if c = CHR ''-'' then (- 1, r) else if c = CHR ''+'' then (1, r) else (1, S))"

definition strip_hex_prefix :: "string \<Rightarrow> nat \<times> string" where
  "strip_hex_prefix S =
     (case S of
        a # b # r \<Rightarrow>
          if a = CHR ''0'' \<and> (b = CHR ''x'' \<or> b = CHR ''X'') then (16, r) else (10, S)
      | _ \<Rightarrow> (10, S))"

definition parseInt_string :: "string \<Rightarrow> int option" where
  "parseInt_string inputString =
     (let S = dropWhile is_ws inputString;
          (sign, S1) = strip_sign S;
          (R, S2) = strip_hex_prefix S1;
          Z = takeWhile (is_digit R) S2
      in if Z = [] then None else Some (sign * int (radix_value R Z)))"

text \<open>\<open>Number.prototype.toString\<close> on an integer: its decimal digits, with a minus sign.\<close>

fun decimal :: "nat \<Rightarrow> string" where
  "decimal n =
     (if n < 10 then [char_of (48 + n)]
      else decimal (n div 10) @ [char_of (48 + n mod 10)])"

declare decimal.simps [simp del]

definition number_toString :: "int \<Rightarrow> string" where
  "number_toString n = (if n < 0 then CHR ''-'' # decimal (nat (- n)) else decimal (nat n))"

text \<open>
  \<open>parseInt\<close> first converts its argument to a string.  The string forms of
  \<open>undefined\<close>, \<open>null\<close>, the booleans and a \<open>Date\<close> start with a letter, so they give
  \<open>NaN\<close>.
\<close>

fun parseInt :: "jsval \<Rightarrow> int option" where
  "parseInt (JStr s) = parseInt_string s"
| "parseInt (JNum n) = parseInt_string (number_toString n)"
| "parseInt JUndefined = None"
| "parseInt JNull = None"
| "parseInt (JBool b) = None"
| "parseInt (JDate t) = None"

text \<open>\<open>v === k\<close> where \<open>k\<close> is the result of \<open>parseInt\<close>: \<open>NaN\<close> equals nothing.\<close>

definition strict_eq_number :: "jsval \<Rightarrow> int option \<Rightarrow> bool" where
  "strict_eq_number v k = (case k of None \<Rightarrow> False | Some n \<Rightarrow> v = JNum n)"

section \<open>In-memory adapter (in-memory-user.repository.js)\<close>

text \<open>
  The adapter's fields.  A stored record is the spread of the entity with its \<open>id\<close>
  replaced, so it has the entity's five properties.
\<close>

record InMemoryUserRepository =
  users :: "UserEntity list"
  currentId :: int

definition InMemoryUserRepository_new :: InMemoryUserRepository where
  "InMemoryUserRepository_new = \<lparr>users = [], currentId = 1\<rparr>"

definition rehydrate :: "int \<Rightarrow> UserEntity \<Rightarrow> UserEntity" where
  "rehydrate now u = new_UserEntity now (e_id u) (e_name u) (e_email u) (e_role u) (e_createdAt u)"

definition InMemory_create ::
  "int \<Rightarrow> InMemoryUserRepository \<Rightarrow> UserEntity
     \<Rightarrow> (js_error + UserEntity) \<times> InMemoryUserRepository" where
  "InMemory_create now this userEntity =
     (let newUser = userEntity\<lparr>e_id := JNum (currentId this)\<rparr>;
          this' = this\<lparr>users := users this @ [newUser], currentId := currentId this + 1\<rparr>
      in (Inr (rehydrate now newUser), this'))"

definition InMemory_findAll ::
  "int \<Rightarrow> InMemoryUserRepository \<Rightarrow> (js_error + UserEntity list) \<times> InMemoryUserRepository" where
  "InMemory_findAll now this = (Inr (map (rehydrate now) (users this)), this)"

definition InMemory_findById ::
  "int \<Rightarrow> InMemoryUserRepository \<Rightarrow> jsval
     \<Rightarrow> (js_error + UserEntity option) \<times> InMemoryUserRepository" where
  "InMemory_findById now this i =
     (case find (\<lambda>u. strict_eq_number (e_id u) (parseInt i)) (users this) of
        None \<Rightarrow> (Inr None, this)
      | Some user \<Rightarrow> (Inr (Some (rehydrate now user)), this))"

definition InMemoryAdapter :: "InMemoryUserRepository IUserRepository" where
  "InMemoryAdapter =
     \<lparr>create = InMemory_create, findAll = InMemory_findAll, findById = InMemory_findById\<rparr>"

section \<open>Document-store adapter (mongo-user.repository.ts)\<close>

text \<open>
  A document as the store returns it; \<open>doc_id\<close> is the string form of its \<open>_id\<close>.
\<close>

record IUserDocument =
  doc_id :: string
  doc_name :: jsval
  doc_email :: jsval
  doc_role :: jsval
  doc_createdAt :: jsval

text \<open>
  The Mongoose model \<open>UserModel\<close> is a library object outside the repository: it is a
  parameter, a record of the three store operations that the adapter calls, over a store
  state \<open>'m\<close>.  \<open>um_save now m n e r\<close> is \<open>new UserModel({name: n, email: e, role: r}).save()\<close>.
\<close>

record 'm UserModel =
  um_save :: "int \<Rightarrow> 'm \<Rightarrow> jsval \<Rightarrow> jsval \<Rightarrow> jsval \<Rightarrow> (js_error + IUserDocument) \<times> 'm"
  um_find :: "'m \<Rightarrow> (js_error + IUserDocument list) \<times> 'm"
  um_findById :: "'m \<Rightarrow> jsval \<Rightarrow> (js_error + IUserDocument option) \<times> 'm"

definition mapToEntity :: "int \<Rightarrow> IUserDocument \<Rightarrow> UserEntity" where
  "mapToEntity now mongoUser =
     new_UserEntity now (JStr (doc_id mongoUser)) (doc_name mongoUser) (doc_email mongoUser)
       (doc_role mongoUser) JUndefined"

definition Mongo_create ::
  "'m UserModel \<Rightarrow> int \<Rightarrow> 'm \<Rightarrow> UserEntity \<Rightarrow> (js_error + UserEntity) \<times> 'm" where
  "Mongo_create model now m userEntity =
     (case um_save model now m (e_name userEntity) (e_email userEntity) (e_role userEntity) of
        (Inl err, m') \<Rightarrow> (Inl err, m')
      | (Inr savedUser, m') \<Rightarrow> (Inr (mapToEntity now savedUser), m'))"

definition Mongo_findAll ::
  "'m UserModel \<Rightarrow> int \<Rightarrow> 'm \<Rightarrow> (js_error + UserEntity list) \<times> 'm" where
  "Mongo_findAll model now m =
     (case um_find model m of
        (Inl err, m') \<Rightarrow> (Inl err, m')
      | (Inr docs, m') \<Rightarrow> (Inr (map (mapToEntity now) docs), m'))"

text \<open>The \<open>try\<close>/\<open>catch\<close> turns every rejection of the store's \<open>findById\<close> into \<open>null\<close>.\<close>

definition Mongo_findById ::
  "'m UserModel \<Rightarrow> int \<Rightarrow> 'm \<Rightarrow> jsval \<Rightarrow> (js_error + UserEntity option) \<times> 'm" where
  "Mongo_findById model now m i =
     (case um_findById model m i of
        (Inl err, m') \<Rightarrow> (Inr None, m')
      | (Inr None, m') \<Rightarrow> (Inr None, m')
      | (Inr (Some user), m') \<Rightarrow> (Inr (Some (mapToEntity now user)), m'))"

definition MongoAdapter :: "'m UserModel \<Rightarrow> 'm IUserRepository" where
  "MongoAdapter model =
     \<lparr>create = Mongo_create model, findAll = Mongo_findAll model,
      findById = Mongo_findById model\<rparr>"

section \<open>Auxiliary notions for stating the properties\<close>

text \<open>\<open>a ?? b\<close>, the operator that the specification names for the role default.\<close>

definition js_nullish :: "jsval \<Rightarrow> jsval \<Rightarrow> jsval" where
  "js_nullish a b = (if a = JUndefined \<or> a = JNull then b else a)"

text \<open>The JavaScript mapper (\<open>user.mapper.js\<close>) forwards \<open>createdAt\<close> as well.\<close>

definition toEntity_js :: "int \<Rightarrow> raw_record \<Rightarrow> UserEntity" where
  "toEntity_js now data =
     new_UserEntity now (get_prop data ''id'') (get_prop data ''name'') (get_prop data ''email'')
       (get_prop data ''role'') (get_prop data ''createdAt'')"

text \<open>
  An adapter whose three operations reject with a given error.  The base class
  \<open>UserRepositoryInterface\<close> of \<open>user.repository.interface.js\<close> is such an adapter: each
  of its methods throws \<open>Error('Method not implemented')\<close>.
\<close>

definition rejecting_adapter :: "js_error \<Rightarrow> 's IUserRepository" where
  "rejecting_adapter err =
     \<lparr>create = (\<lambda>now st userEntity. (Inl err, st)),
      findAll = (\<lambda>now st. (Inl err, st)),
      findById = (\<lambda>now st i. (Inl err, st))\<rparr>"

definition UserRepositoryInterface :: "'s IUserRepository" where
  "UserRepositoryInterface = rejecting_adapter (new_Error ''Method not implemented'')"

text \<open>
  A history of \<open>CreateUser.execute\<close> calls, each with the clock reading at which it runs:
  the outcomes in order, and the adapter state that the calls leave.
\<close>

fun run_creates ::
  "'s IUserRepository \<Rightarrow> 's \<Rightarrow> (int \<times> CreateUserRequest) list
     \<Rightarrow> (js_error + UserDTO) list \<times> 's" where
  "run_creates userRepository st [] = ([], st)"
| "run_creates userRepository st ((now, data) # calls) =
     (case CreateUserUseCase_execute userRepository now st data of
        (out, st1) \<Rightarrow>
          (case run_creates userRepository st1 calls of
             (outs, st2) \<Rightarrow> (out # outs, st2)))"

definition successes :: "(js_error + 'a) list \<Rightarrow> 'a list" where
  "successes outs = concat (map (\<lambda>out. case out of Inl err \<Rightarrow> [] | Inr d \<Rightarrow> [d]) outs)"

definition valid_request :: "CreateUserRequest \<Rightarrow> bool" where
  "valid_request data = (truthy (rq_name data) \<and> truthy (rq_email data))"

text \<open>
  The identifiers of the in-memory adapter's records are \<open>1, 2, \<dots>\<close> up to the counter,
  in the order of the collection.
\<close>

definition ids_ok :: "InMemoryUserRepository \<Rightarrow> bool" where
  "ids_ok this =
     (1 \<le> currentId this \<and> map e_id (users this) = map JNum [1..currentId this - 1])"

text \<open>The decimal digits that a string starts with.\<close>

definition leading_digits :: "string \<Rightarrow> string" where
  "leading_digits s = takeWhile (is_digit 10) s"

section \<open>A document store behind UserModel\<close>

text \<open>
  Modelled from the spec: the document store behind \<open>UserModel\<close> (MongoDB through
  Mongoose) is outside the repository.  This model follows the schema of \<open>user.model.ts\<close>
  (\<open>name\<close> and \<open>email\<close> required strings, \<open>email\<close> unique, \<open>role\<close> defaulting to \<open>user\<close>,
  \<open>createdAt\<close> defaulting to the time of the save) and the specification's account of the
  store: a collection of records keyed by store-assigned opaque string identifiers, whose
  \<open>findById\<close> rejects a malformed identifier.  An identifier is a string of 24
  hexadecimal digits; the store hands out the 24-digit numerals of a counter.  The order
  in which \<open>find\<close> reads the collection back is not specified: it is a parameter of the
  model.
\<close>

record DocumentStore =
  ds_docs :: "IUserDocument list"
  ds_next :: nat

definition DocumentStore_new :: DocumentStore where
  "DocumentStore_new = \<lparr>ds_docs = [], ds_next = 0\<rparr>"

definition object_id :: "nat \<Rightarrow> string" where
  "object_id n = replicate (24 - length (decimal n)) (CHR ''0'') @ decimal n"

definition is_object_id :: "string \<Rightarrow> bool" where
  "is_object_id s = (length s = 24 \<and> list_all (is_digit 16) s)"

text \<open>
  The schema type \<open>String\<close> casts numbers and booleans to their string forms; an absent
  value stays absent.  (A \<open>Date\<close> does not occur in a JSON body; the model treats it as
  absent.)  The required fields \<open>name\<close> and \<open>email\<close> must be present and non-empty.  The
  default of \<open>role\<close> replaces an absent role only: \<open>null\<close> is stored as it is.
\<close>

fun schema_string :: "jsval \<Rightarrow> string option" where
  "schema_string (JStr s) = Some s"
| "schema_string (JNum n) = Some (number_toString n)"
| "schema_string (JBool b) = Some (if b then ''true'' else ''false'')"
| "schema_string JUndefined = None"
| "schema_string JNull = None"
| "schema_string (JDate t) = None"

definition ds_save ::
  "int \<Rightarrow> DocumentStore \<Rightarrow> jsval \<Rightarrow> jsval \<Rightarrow> jsval
     \<Rightarrow> (js_error + IUserDocument) \<times> DocumentStore" where
  "ds_save now m n e r =
     (case (schema_string n, schema_string e) of
        (Some n', Some e') \<Rightarrow>
          if n' = [] \<or> e' = []
          then (Inl (JsError ''ValidationError'' ''User validation failed''), m)
          else if JStr e' \<in> set (map doc_email (ds_docs m))
          then (Inl (JsError ''MongoServerError'' ''E11000 duplicate key error''), m)
          else
            let savedUser =
                  \<lparr>doc_id = object_id (ds_next m), doc_name = JStr n', doc_email = JStr e',
                   doc_role = (case r of
                                 JNull \<Rightarrow> JNull
                               | _ \<Rightarrow> (case schema_string r of
                                        None \<Rightarrow> JStr ''user'' | Some r' \<Rightarrow> JStr r')),
                   doc_createdAt = JDate now\<rparr>
            in (Inr savedUser,
                m\<lparr>ds_docs := ds_docs m @ [savedUser], ds_next := Suc (ds_next m)\<rparr>)
      | _ \<Rightarrow> (Inl (JsError ''ValidationError'' ''User validation failed''), m))"

text \<open>
  \<open>UserModel.find()\<close> is called with no sort, and the port leaves the order of \<open>findAll\<close>
  to the adapter: \<open>read_order\<close> is the rearrangement in which the store reads its
  collection back.
\<close>

definition ds_find ::
  "(IUserDocument list \<Rightarrow> IUserDocument list) \<Rightarrow> DocumentStore
     \<Rightarrow> (js_error + IUserDocument list) \<times> DocumentStore" where
  "ds_find read_order m = (Inr (read_order (ds_docs m)), m)"

text \<open>
  A string that is not an identifier is rejected.  (The adapter turns a rejection and a
  missing document into the same absent result.)
\<close>

definition ds_findById ::
  "DocumentStore \<Rightarrow> jsval \<Rightarrow> (js_error + IUserDocument option) \<times> DocumentStore" where
  "ds_findById m i =
     (case i of
        JStr s \<Rightarrow>
          if is_object_id s then (Inr (find (\<lambda>d. doc_id d = s) (ds_docs m)), m)
          else (Inl (JsError ''CastError'' ''Cast to ObjectId failed''), m)
      | _ \<Rightarrow> (Inl (JsError ''CastError'' ''Cast to ObjectId failed''), m))"

definition DocumentStoreModel ::
  "(IUserDocument list \<Rightarrow> IUserDocument list) \<Rightarrow> DocumentStore UserModel" where
  "DocumentStoreModel read_order =
     \<lparr>um_save = ds_save, um_find = ds_find read_order, um_findById = ds_findById\<rparr>"

text \<open>The store's identifiers are the numerals of \<open>0, 1, \<dots>\<close> up to its counter.\<close>

definition store_ok :: "DocumentStore \<Rightarrow> bool" where
  "store_ok m = (map doc_id (ds_docs m) = map object_id [0..<ds_next m])"

text \<open>
  What a use case's outcome shows of its contract: failure, or the DTO's \<open>name\<close>, \<open>email\<close>
  and \<open>role\<close>.
\<close>

definition dto_view :: "UserDTO \<Rightarrow> jsval \<times> jsval \<times> jsval" where
  "dto_view d = (d_name d, d_email d, d_role d)"

definition outcome_view :: "js_error + UserDTO \<Rightarrow> (jsval \<times> jsval \<times> jsval) option" where
  "outcome_view out = (case out of Inl err \<Rightarrow> None | Inr d \<Rightarrow> Some (dto_view d))"

text \<open>
  A request whose values the schema stores as they are: \<open>name\<close> and \<open>email\<close> are
  strings, and so is the role unless it is falsy (a falsy role is replaced by \<open>user\<close>
  before it reaches the adapter).
\<close>

definition is_string :: "jsval \<Rightarrow> bool" where
  "is_string v = (case v of JStr s \<Rightarrow> True | _ \<Rightarrow> False)"

definition string_request :: "CreateUserRequest \<Rightarrow> bool" where
  "string_request data =
     (is_string (rq_name data) \<and> is_string (rq_email data)
      \<and> (truthy (rq_role data) \<longrightarrow> is_string (rq_role data)))"

text \<open>
  The two adapters hold the same records, field by field, each with well-formed
  identifiers.
\<close>

definition entity_view :: "UserEntity \<Rightarrow> jsval \<times> jsval \<times> jsval" where
  "entity_view u = (e_name u, e_email u, e_role u)"

definition doc_view :: "IUserDocument \<Rightarrow> jsval \<times> jsval \<times> jsval" where
  "doc_view d = (doc_name d, doc_email d, doc_role d)"

definition sim :: "InMemoryUserRepository \<Rightarrow> DocumentStore \<Rightarrow> bool" where
  "sim r m =
     (ids_ok r \<and> store_ok m \<and> map entity_view (users r) = map doc_view (ds_docs m))"

text \<open>The DTO that the document-store adapter makes of a document.\<close>

definition doc_dto :: "IUserDocument \<Rightarrow> UserDTO" where
  "doc_dto d =
     \<lparr>d_id = JStr (doc_id d), d_name = doc_name d, d_email = doc_email d, d_role = doc_role d\<rparr>"

section \<open>Use cases and controllers over an arbitrary adapter\<close>

lemma CreateUser_invalid:
  "\<not> truthy (rq_name data) \<or> \<not> truthy (rq_email data) \<Longrightarrow>
   CreateUserUseCase_execute userRepository now st data =
     (Inl (new_Error ''Name and email are required''), st)"
  by (simp add: CreateUserUseCase_execute_def)

lemma CreateUser_valid:
  "truthy (rq_name data) \<Longrightarrow> truthy (rq_email data) \<Longrightarrow>
   CreateUserUseCase_execute userRepository now st data =
     (case create userRepository now st
             \<lparr>e_id = JNull, e_name = rq_name data, e_email = rq_email data,
              e_role = (if truthy (rq_role data) then rq_role data else JStr ''user''),
              e_createdAt = JDate now\<rparr> of
        (Inl err, st') \<Rightarrow> (Inl err, st')
      | (Inr createdUser, st') \<Rightarrow> (Inr (toDTO createdUser), st'))"
  by (simp add: CreateUserUseCase_execute_def new_UserEntity_def js_or_def)

lemma GetAllUsers_rejected:
  "findAll userRepository now st = (Inl err, st') \<Longrightarrow>
   GetAllUsersUseCase_execute userRepository now st = (Inl err, st')"
  by (simp add: GetAllUsersUseCase_execute_def)

lemma GetUserById_absent:
  "findById userRepository now st i = (Inr None, st') \<Longrightarrow>
   GetUserByIdUseCase_execute userRepository now st i = (Inl (new_Error ''User not found''), st')"
  by (simp add: GetUserByIdUseCase_execute_def)

lemma GetUserById_rejected:
  "findById userRepository now st i = (Inl err, st') \<Longrightarrow>
   GetUserByIdUseCase_execute userRepository now st i = (Inl err, st')"
  by (simp add: GetUserByIdUseCase_execute_def)

lemma handle_failure:
  "CreateUserUseCase_execute userRepository now st body = (Inl err, st') \<Longrightarrow>
   CreateUserController_handle userRepository now st body =
     (sendResponse 400 False (message err) NoData, st')"
  by (simp add: CreateUserController_handle_def)

lemma getAll_failure:
  "GetAllUsersUseCase_execute userRepository now st = (Inl err, st') \<Longrightarrow>
   GetUsersController_getAll userRepository now st =
     (sendResponse 500 False (message err) NoData, st')"
  by (simp add: GetUsersController_getAll_def)

lemma getById_failure:
  "GetUserByIdUseCase_execute userRepository now st i = (Inl err, st') \<Longrightarrow>
   GetUsersController_getById userRepository now st i =
     (sendResponse (if message err = ''User not found'' then 404 else 500) False
        (message err) NoData, st')"
  by (simp add: GetUsersController_getById_def)

lemma Mongo_findById_store_error:
  "um_findById model m i = (Inl err, m') \<Longrightarrow>
   findById (MongoAdapter model) now m i = (Inr None, m')"
  by (simp add: MongoAdapter_def Mongo_findById_def)

lemma CreateUser_InMemory:
  "truthy (rq_name data) \<Longrightarrow> truthy (rq_email data) \<Longrightarrow>
   CreateUserUseCase_execute InMemoryAdapter now st data =
     (Inr \<lparr>d_id = JNum (currentId st), d_name = rq_name data, d_email = rq_email data,
           d_role = js_or (rq_role data) (JStr ''user'')\<rparr>,
      st\<lparr>users := users st @ [\<lparr>e_id = JNum (currentId st), e_name = rq_name data,
            e_email = rq_email data, e_role = js_or (rq_role data) (JStr ''user''),
            e_createdAt = JDate now\<rparr>], currentId := currentId st + 1\<rparr>)"
  by (simp add: CreateUserUseCase_execute_def InMemoryAdapter_def InMemory_create_def
      new_UserEntity_def rehydrate_def toDTO_def js_or_def Let_def)

section \<open>Validation failure of CreateUser\<close>

text \<open>
  Claim C2.  When \<open>name\<close> or \<open>email\<close> is falsy (absent, that is \<open>undefined\<close>, or the empty
  string; also \<open>null\<close>), \<open>CreateUser.execute\<close> rejects with the error
  \<open>Name and email are required\<close> and leaves the adapter's state as it was, whatever the
  adapter is: the port's \<open>create\<close> is not called, so no record is persisted.
\<close>

theorem CreateUser_validation_error_persists_nothing:
  assumes "\<not> truthy (rq_name data) \<or> \<not> truthy (rq_email data)"
  shows "CreateUserUseCase_execute userRepository now st data =
           (Inl (new_Error ''Name and email are required''), st)"
  using assms by (rule CreateUser_invalid)

theorem CreateUser_validation_error_persists_nothing_witness:
  "CreateUserUseCase_execute InMemoryAdapter 0 InMemoryUserRepository_new
      \<lparr>rq_name = JUndefined, rq_email = JUndefined, rq_role = JUndefined\<rparr> =
     (Inl (new_Error ''Name and email are required''), InMemoryUserRepository_new)
   \<and> CreateUserUseCase_execute InMemoryAdapter 0 InMemoryUserRepository_new
      \<lparr>rq_name = JStr ''x'', rq_email = JUndefined, rq_role = JUndefined\<rparr> =
     (Inl (new_Error ''Name and email are required''), InMemoryUserRepository_new)"
  using CreateUser_validation_error_persists_nothing
          [of "\<lparr>rq_name = JUndefined, rq_email = JUndefined, rq_role = JUndefined\<rparr>"
              InMemoryAdapter 0 InMemoryUserRepository_new]
        CreateUser_validation_error_persists_nothing
          [of "\<lparr>rq_name = JStr ''x'', rq_email = JUndefined, rq_role = JUndefined\<rparr>"
              InMemoryAdapter 0 InMemoryUserRepository_new]
  by simp

section \<open>The role default of CreateUser\<close>

text \<open>
  Claim C6, as stated, has the role default follow \<open>??\<close>: an empty-string role would be
  kept.  The use case writes \<open>role || 'user'\<close>: with the empty string as role, the record
  that the in-memory adapter stores has the role \<open>user\<close>.
\<close>

theorem CreateUser_role_nullish_counterexample:
  "map e_role (users (snd (CreateUserUseCase_execute InMemoryAdapter 0 InMemoryUserRepository_new
      \<lparr>rq_name = JStr ''x'', rq_email = JStr ''x@y'', rq_role = JStr ''''\<rparr>)))
   \<noteq> [js_nullish (JStr '''') (JStr ''user'')]"
  by (simp add: CreateUser_InMemory js_nullish_def js_or_def InMemoryUserRepository_new_def)

text \<open>
  Claim C6, amended.  For every input with truthy \<open>name\<close> and \<open>email\<close>,
  \<open>CreateUser.execute\<close> builds the transient entity (id \<open>null\<close>) whose role is \<open>data.role\<close>
  when that is truthy and \<open>user\<close> when it is falsy (\<open>undefined\<close>, \<open>null\<close>, or the empty
  string), calls the port's \<open>create\<close> on it, and maps the entity that \<open>create\<close> returns to
  a DTO; a rejection of \<open>create\<close> is passed on.
\<close>

theorem CreateUser_builds_entity_with_falsy_role_default:
  assumes "truthy (rq_name data)" and "truthy (rq_email data)"
  shows "CreateUserUseCase_execute userRepository now st data =
     (case create userRepository now st
             \<lparr>e_id = JNull, e_name = rq_name data, e_email = rq_email data,
              e_role = (if truthy (rq_role data) then rq_role data else JStr ''user''),
              e_createdAt = JDate now\<rparr> of
        (Inl err, st') \<Rightarrow> (Inl err, st')
      | (Inr createdUser, st') \<Rightarrow> (Inr (toDTO createdUser), st'))"
  using assms by (rule CreateUser_valid)

theorem CreateUser_builds_entity_with_falsy_role_default_witness:
  "CreateUserUseCase_execute InMemoryAdapter 7 InMemoryUserRepository_new
      \<lparr>rq_name = JStr ''x'', rq_email = JStr ''x@y'', rq_role = JStr ''''\<rparr> =
   (Inr \<lparr>d_id = JNum 1, d_name = JStr ''x'', d_email = JStr ''x@y'', d_role = JStr ''user''\<rparr>,
    \<lparr>users = [\<lparr>e_id = JNum 1, e_name = JStr ''x'', e_email = JStr ''x@y'',
        e_role = JStr ''user'', e_createdAt = JDate 7\<rparr>], currentId = 2\<rparr>)"
  using CreateUser_builds_entity_with_falsy_role_default
          [of "\<lparr>rq_name = JStr ''x'', rq_email = JStr ''x@y'', rq_role = JStr ''''\<rparr>"
              InMemoryAdapter 7 InMemoryUserRepository_new]
  by (simp add: InMemoryAdapter_def InMemory_create_def InMemoryUserRepository_new_def
        rehydrate_def new_UserEntity_def toDTO_def js_or_def Let_def)

section \<open>Mapper.toEntity\<close>

text \<open>
  Claim C8, as stated, has \<open>createdAt\<close> left unset when it is missing from the raw
  record.  The entity constructor replaces a falsy \<open>createdAt\<close> by the current time: on
  the empty record the entity's \<open>createdAt\<close> is neither \<open>undefined\<close> nor \<open>null\<close>.
\<close>

theorem toEntity_createdAt_counterexample:
  "e_createdAt (toEntity 5 Map.empty) \<noteq> JUndefined
   \<and> e_createdAt (toEntity 5 Map.empty) \<noteq> JNull"
  by (simp add: toEntity_def new_UserEntity_def js_or_def)

text \<open>
  Claim C8, amended.  For every raw record \<open>Mapper.toEntity\<close> returns an entity whose
  \<open>id\<close>, \<open>name\<close>, \<open>email\<close> and \<open>role\<close> are the record's, \<open>undefined\<close> where the record has
  none; \<open>createdAt\<close> is never left unset.  The TypeScript mapper does not forward it, so
  it is the current time; the JavaScript mapper forwards it, and the constructor replaces
  it by the current time when it is missing.
\<close>

theorem toEntity_copies_fields_and_defaults_createdAt:
  "toEntity now data =
     \<lparr>e_id = (case data ''id'' of None \<Rightarrow> JUndefined | Some v \<Rightarrow> v),
      e_name = (case data ''name'' of None \<Rightarrow> JUndefined | Some v \<Rightarrow> v),
      e_email = (case data ''email'' of None \<Rightarrow> JUndefined | Some v \<Rightarrow> v),
      e_role = (case data ''role'' of None \<Rightarrow> JUndefined | Some v \<Rightarrow> v),
      e_createdAt = JDate now\<rparr>
   \<and> toEntity_js now data =
     \<lparr>e_id = (case data ''id'' of None \<Rightarrow> JUndefined | Some v \<Rightarrow> v),
      e_name = (case data ''name'' of None \<Rightarrow> JUndefined | Some v \<Rightarrow> v),
      e_email = (case data ''email'' of None \<Rightarrow> JUndefined | Some v \<Rightarrow> v),
      e_role = (case data ''role'' of None \<Rightarrow> JUndefined | Some v \<Rightarrow> v),
      e_createdAt = (case data ''createdAt'' of None \<Rightarrow> JDate now
                     | Some v \<Rightarrow> if truthy v then v else JDate now)\<rparr>"
  by (simp add: toEntity_def toEntity_js_def new_UserEntity_def js_or_def get_prop_def
        split: option.splits)

theorem toEntity_copies_fields_and_defaults_createdAt_witness:
  "toEntity 5 [''name'' \<mapsto> JStr ''x''] =
     \<lparr>e_id = JUndefined, e_name = JStr ''x'', e_email = JUndefined, e_role = JUndefined,
      e_createdAt = JDate 5\<rparr>
   \<and> toEntity_js 5 [''name'' \<mapsto> JStr ''x''] =
     \<lparr>e_id = JUndefined, e_name = JStr ''x'', e_email = JUndefined, e_role = JUndefined,
      e_createdAt = JDate 5\<rparr>"
  using toEntity_copies_fields_and_defaults_createdAt [of 5 "[''name'' \<mapsto> JStr ''x'']"]
  by simp

section \<open>Failures at the controllers\<close>

text \<open>
  Claim C9.  \<open>GetUsersController.getById\<close> chooses the status of a failure by the error's
  message alone: the response has status 404 when the message is exactly
  \<open>User not found\<close> and status 500 otherwise, whatever the error's class, with
  \<open>success = false\<close>, the error's message and no data.  This holds of every failure of
  the use case, and so of every rejection of the adapter's \<open>findById\<close>, which the use case
  passes on.
\<close>

theorem getById_status_decided_by_message:
  "(GetUserByIdUseCase_execute userRepository now st i = (Inl err, st') \<longrightarrow>
      GetUsersController_getById userRepository now st i =
        (\<lparr>statusCode = (if message err = ''User not found'' then 404 else 500),
          success = False, r_message = message err, r_data = NoData\<rparr>, st')
      \<and> (statusCode (fst (GetUsersController_getById userRepository now st i)) = 404
            \<longleftrightarrow> message err = ''User not found'')
      \<and> (statusCode (fst (GetUsersController_getById userRepository now st i)) = 500
            \<longleftrightarrow> message err \<noteq> ''User not found''))
   \<and> (findById userRepository now st i = (Inl err, st') \<longrightarrow>
      GetUsersController_getById userRepository now st i =
        (\<lparr>statusCode = (if message err = ''User not found'' then 404 else 500),
          success = False, r_message = message err, r_data = NoData\<rparr>, st')
      \<and> (statusCode (fst (GetUsersController_getById userRepository now st i)) = 404
            \<longleftrightarrow> message err = ''User not found'')
      \<and> (statusCode (fst (GetUsersController_getById userRepository now st i)) = 500
            \<longleftrightarrow> message err \<noteq> ''User not found''))"
  by (simp add: getById_failure GetUserById_rejected sendResponse_def)

theorem getById_status_decided_by_message_witness:
  "GetUsersController_getById
      (rejecting_adapter (JsError ''MongoNetworkError'' ''User not found'')) 0 () (JStr ''1'') =
     (\<lparr>statusCode = 404, success = False, r_message = ''User not found'', r_data = NoData\<rparr>, ())
   \<and> GetUsersController_getById
      (rejecting_adapter (JsError ''MongoNetworkError'' ''user not found'')) 0 () (JStr ''1'') =
     (\<lparr>statusCode = 500, success = False, r_message = ''user not found'', r_data = NoData\<rparr>, ())"
  using getById_status_decided_by_message
          [of "rejecting_adapter (JsError ''MongoNetworkError'' ''User not found'')" 0 "()"
              "JStr ''1''" "JsError ''MongoNetworkError'' ''User not found''" "()"]
        getById_status_decided_by_message
          [of "rejecting_adapter (JsError ''MongoNetworkError'' ''user not found'')" 0 "()"
              "JStr ''1''" "JsError ''MongoNetworkError'' ''user not found''" "()"]
  by (simp add: rejecting_adapter_def)

text \<open>
  Claim C3.  Whenever the adapter's \<open>findById\<close> yields the absent result,
  \<open>GetUserById.execute\<close> rejects with \<open>Error('User not found')\<close> and the controller's
  response has status 404, \<open>success = false\<close>, the message \<open>User not found\<close> and no data.
  The document-store adapter yields the absent result whenever the store's \<open>findById\<close>
  rejects (as it does on a malformed identifier), so there too the outcome is the
  not-found error and the response with status 404.
\<close>

theorem GetUserById_absent_is_not_found_404:
  "(findById userRepository now st i = (Inr None, st') \<longrightarrow>
      GetUserByIdUseCase_execute userRepository now st i =
        (Inl (JsError ''Error'' ''User not found''), st')
      \<and> GetUsersController_getById userRepository now st i =
        (\<lparr>statusCode = 404, success = False, r_message = ''User not found'',
          r_data = NoData\<rparr>, st'))
   \<and> (um_findById model m i = (Inl err, m') \<longrightarrow>
      findById (MongoAdapter model) now m i = (Inr None, m')
      \<and> GetUserByIdUseCase_execute (MongoAdapter model) now m i =
        (Inl (JsError ''Error'' ''User not found''), m')
      \<and> GetUsersController_getById (MongoAdapter model) now m i =
        (\<lparr>statusCode = 404, success = False, r_message = ''User not found'',
          r_data = NoData\<rparr>, m'))"
  by (auto simp add: GetUserById_absent getById_failure Mongo_findById_store_error new_Error_def
        sendResponse_def)

text \<open>
  Claim C4, as stated, has every failure other than a validation or not-found error
  answered with 500.  \<open>CreateUserController.handle\<close> answers every failure with 400: when
  the adapter's \<open>create\<close> rejects with \<open>Method not implemented\<close>, the status is not 500.
\<close>

theorem create_failure_status_counterexample:
  "statusCode (fst (CreateUserController_handle UserRepositoryInterface 0 ()
      \<lparr>rq_name = JStr ''x'', rq_email = JStr ''x@y'', rq_role = JUndefined\<rparr>)) \<noteq> 500"
  by (simp add: CreateUserController_handle_def CreateUser_valid UserRepositoryInterface_def
        rejecting_adapter_def sendResponse_def)

text \<open>
  Claim C4, amended.  Every failure that reaches \<open>GetUsersController.getAll\<close>, and every
  failure that reaches \<open>GetUsersController.getById\<close> with a message other than
  \<open>User not found\<close>, is answered with status 500 and \<open>success = false\<close> (with the error's
  message and no data); this includes the rejections of the adapter's \<open>findAll\<close> and
  \<open>findById\<close>.  Every failure that reaches \<open>CreateUserController.handle\<close>, a rejection of
  the adapter's \<open>create\<close> included, is answered with status 400 and \<open>success = false\<close>.
\<close>

theorem controller_failure_statuses:
  "(GetAllUsersUseCase_execute userRepository now st = (Inl err, st') \<longrightarrow>
      GetUsersController_getAll userRepository now st =
        (\<lparr>statusCode = 500, success = False, r_message = message err, r_data = NoData\<rparr>, st'))
   \<and> (findAll userRepository now st = (Inl err, st') \<longrightarrow>
      GetUsersController_getAll userRepository now st =
        (\<lparr>statusCode = 500, success = False, r_message = message err, r_data = NoData\<rparr>, st'))
   \<and> (GetUserByIdUseCase_execute userRepository now st i = (Inl err, st')
        \<and> message err \<noteq> ''User not found'' \<longrightarrow>
      GetUsersController_getById userRepository now st i =
        (\<lparr>statusCode = 500, success = False, r_message = message err, r_data = NoData\<rparr>, st'))
   \<and> (findById userRepository now st i = (Inl err, st')
        \<and> message err \<noteq> ''User not found'' \<longrightarrow>
      GetUsersController_getById userRepository now st i =
        (\<lparr>statusCode = 500, success = False, r_message = message err, r_data = NoData\<rparr>, st'))
   \<and> (CreateUserUseCase_execute userRepository now st body = (Inl err, st') \<longrightarrow>
      CreateUserController_handle userRepository now st body =
        (\<lparr>statusCode = 400, success = False, r_message = message err, r_data = NoData\<rparr>, st'))"
  by (simp add: getAll_failure getById_failure handle_failure GetAllUsers_rejected
        GetUserById_rejected sendResponse_def)

theorem controller_failure_statuses_witness:
  "GetUsersController_getAll
      (rejecting_adapter (JsError ''MongoNetworkError'' ''connection lost'')) 0 () =
     (\<lparr>statusCode = 500, success = False, r_message = ''connection lost'', r_data = NoData\<rparr>, ())
   \<and> GetUsersController_getById
      (rejecting_adapter (JsError ''MongoNetworkError'' ''connection lost'')) 0 () (JStr ''1'') =
     (\<lparr>statusCode = 500, success = False, r_message = ''connection lost'', r_data = NoData\<rparr>, ())
   \<and> CreateUserController_handle
      (rejecting_adapter (JsError ''MongoNetworkError'' ''connection lost'')) 0 ()
      \<lparr>rq_name = JStr ''x'', rq_email = JStr ''x@y'', rq_role = JUndefined\<rparr> =
     (\<lparr>statusCode = 400, success = False, r_message = ''connection lost'', r_data = NoData\<rparr>, ())"
  using controller_failure_statuses
          [of "rejecting_adapter (JsError ''MongoNetworkError'' ''connection lost'')" 0 "()"
              "JsError ''MongoNetworkError'' ''connection lost''" "()" "JStr ''1''"
              "\<lparr>rq_name = JStr ''x'', rq_email = JStr ''x@y'', rq_role = JUndefined\<rparr>"]
  by (simp add: rejecting_adapter_def CreateUser_valid)

section \<open>parseInt on decimal numerals\<close>

lemma digit_value_char_of:
  "(d::nat) < 10 \<Longrightarrow> digit_value (char_of (48 + d)) = Some d"
  by (simp add: digit_value_def Let_def)

lemma is_digit_char_of: "(d::nat) < 10 \<Longrightarrow> is_digit 10 (char_of (48 + d))"
  by (simp add: is_digit_def digit_value_char_of)

lemma digit_of_char_of: "(d::nat) < 10 \<Longrightarrow> digit_of (char_of (48 + d)) = d"
  by (simp add: digit_of_def digit_value_char_of)

lemma decimal_digits: "\<forall>c \<in> set (decimal n). is_digit 10 c"
proof (induction n rule: decimal.induct)
  case (1 n)
  show ?case
  proof (cases "n < 10")
    case True
    then show ?thesis by (subst decimal.simps) (simp add: is_digit_char_of)
  next
    case False
    with 1 show ?thesis by (subst decimal.simps) (simp add: is_digit_char_of)
  qed
qed

lemma radix_value_snoc: "radix_value R (Z @ [c]) = radix_value R Z * R + digit_of c"
  by (simp add: radix_value_def)

lemma radix_value_decimal: "radix_value 10 (decimal n) = n"
proof (induction n rule: decimal.induct)
  case (1 n)
  show ?case
  proof (cases "n < 10")
    case True
    then show ?thesis by (subst decimal.simps) (simp add: radix_value_def digit_of_char_of)
  next
    case False
    with 1 show ?thesis
      by (subst decimal.simps) (simp add: radix_value_snoc digit_of_char_of)
  qed
qed

lemma decimal_nonempty: "decimal n \<noteq> []"
  by (subst decimal.simps) simp

lemma decimal_hd: "decimal n = c # r \<Longrightarrow> is_digit 10 c"
  using decimal_digits [of n] by simp

lemma decimal_leading_zero: "decimal n = CHR ''0'' # r \<Longrightarrow> r = []"
proof (induction n arbitrary: r rule: decimal.induct)
  case (1 n)
  show ?case
  proof (cases "n < 10")
    case True
    with 1(2) show ?thesis by (subst (asm) decimal.simps) simp
  next
    case False
    from 1(2) False have eq: "decimal (n div 10) @ [char_of (48 + n mod 10)] = CHR ''0'' # r"
      by (subst (asm) decimal.simps) simp
    obtain c r' where d: "decimal (n div 10) = c # r'"
      using decimal_nonempty [of "n div 10"] by (cases "decimal (n div 10)") auto
    with eq have "c = CHR ''0''" by simp
    with d 1(1) [OF False] have "r' = []" by simp
    with d \<open>c = CHR ''0''\<close> have "decimal (n div 10) = ''0''" by simp
    then have "radix_value 10 (decimal (n div 10)) = 0"
      by (simp add: radix_value_def digit_of_def digit_value_def)
    then have "n div 10 = 0" by (simp add: radix_value_decimal)
    with False show ?thesis by simp
  qed
qed


lemma is_digit_not_ws: "is_digit 10 c \<Longrightarrow> \<not> is_ws c"
  by (auto simp add: is_digit_def is_ws_def digit_value_def Let_def split: if_splits)

lemma is_digit_not_sign: "is_digit 10 c \<Longrightarrow> c \<noteq> CHR ''-'' \<and> c \<noteq> CHR ''+''"
  by (auto simp add: is_digit_def digit_value_def Let_def split: if_splits)

lemma is_digit_10_16: "is_digit 10 c \<Longrightarrow> is_digit 16 c"
  by (auto simp add: is_digit_def split: option.splits)

lemma not_digit_x: "\<not> is_digit 10 (CHR ''x'') \<and> \<not> is_digit 10 (CHR ''X'')"
  by (simp add: is_digit_def digit_value_def)

text \<open>A string that starts with a decimal digit: no white space, no sign.\<close>

lemma parseInt_string_digit_first:
  assumes "is_digit 10 c"
  shows "parseInt_string (c # r) =
           (case strip_hex_prefix (c # r) of
              (R, S2) \<Rightarrow>
                if takeWhile (is_digit R) S2 = [] then None
                else Some (int (radix_value R (takeWhile (is_digit R) S2))))"
  using is_digit_not_ws [OF assms] is_digit_not_sign [OF assms]
  by (simp add: parseInt_string_def strip_sign_def Let_def split: prod.splits)

lemma strip_hex_prefix_decimal: "strip_hex_prefix (decimal n) = (10, decimal n)"
proof (cases "decimal n")
  case Nil
  then show ?thesis by (simp add: strip_hex_prefix_def)
next
  case (Cons a r)
  show ?thesis
  proof (cases r)
    case Nil
    with Cons show ?thesis by (simp add: strip_hex_prefix_def)
  next
    case (Cons b r')
    with \<open>decimal n = a # r\<close> decimal_leading_zero [of n r] have "a \<noteq> CHR ''0''" by auto
    with Cons \<open>decimal n = a # r\<close> show ?thesis by (simp add: strip_hex_prefix_def)
  qed
qed

lemma takeWhile_decimal: "takeWhile (is_digit 10) (decimal n) = decimal n"
  using decimal_digits [of n] by (simp add: takeWhile_eq_all_conv)

lemma parseInt_string_decimal: "parseInt_string (decimal n) = Some (int n)"
proof -
  obtain c r where d: "decimal n = c # r"
    using decimal_nonempty [of n] by (cases "decimal n") auto
  have "is_digit 10 c" using d by (rule decimal_hd)
  from parseInt_string_digit_first [OF this, of r] d
  show ?thesis
    using strip_hex_prefix_decimal [of n] takeWhile_decimal [of n] radix_value_decimal [of n]
    by simp
qed

lemma parseInt_number: "0 \<le> n \<Longrightarrow> parseInt (JNum n) = Some n"
  by (simp add: number_toString_def parseInt_string_decimal)

lemma parseInt_number_string: "0 \<le> n \<Longrightarrow> parseInt (JStr (number_toString n)) = Some n"
  by (simp add: number_toString_def parseInt_string_decimal)

section \<open>The in-memory adapter\<close>

lemma toDTO_rehydrate: "toDTO (rehydrate now u) = toDTO u"
  by (simp add: toDTO_def rehydrate_def new_UserEntity_def)

lemma GetAllUsers_InMemory:
  "GetAllUsersUseCase_execute InMemoryAdapter now st = (Inr (map toDTO (users st)), st)"
  by (simp add: GetAllUsersUseCase_execute_def InMemoryAdapter_def InMemory_findAll_def
        toDTO_rehydrate comp_def)

lemma ids_ok_new: "ids_ok InMemoryUserRepository_new"
  by (simp add: ids_ok_def InMemoryUserRepository_new_def)

lemma ids_ok_CreateUser:
  assumes "ids_ok st"
  shows "ids_ok (snd (CreateUserUseCase_execute InMemoryAdapter now st data))"
proof (cases "truthy (rq_name data) \<and> truthy (rq_email data)")
  case True
  from assms have c: "1 \<le> currentId st" by (simp add: ids_ok_def)
  then have "[1..currentId st] = [1..currentId st - 1] @ [currentId st]"
    by (simp add: upto_rec2)
  with assms True show ?thesis by (simp add: CreateUser_InMemory ids_ok_def)
next
  case False
  with assms show ?thesis by (auto simp add: CreateUser_invalid)
qed

lemma ids_ok_run_creates:
  "ids_ok st \<Longrightarrow> ids_ok (snd (run_creates InMemoryAdapter st calls))"
proof (induction calls arbitrary: st)
  case Nil
  then show ?case by simp
next
  case (Cons call calls)
  obtain now data where call: "call = (now, data)" by (cases call)
  from Cons.prems have "ids_ok (snd (CreateUserUseCase_execute InMemoryAdapter now st data))"
    by (rule ids_ok_CreateUser)
  from Cons.IH [OF this] call show ?case by (auto split: prod.splits)
qed

lemma ids_ok_distinct: "ids_ok st \<Longrightarrow> distinct (map e_id (users st))"
  by (simp add: ids_ok_def distinct_map inj_on_def)

lemma ids_ok_range:
  "ids_ok st \<Longrightarrow> u \<in> set (users st) \<Longrightarrow> \<exists>k. e_id u = JNum k \<and> 1 \<le> k \<and> k < currentId st"
proof -
  assume a: "ids_ok st" and u: "u \<in> set (users st)"
  from u have "e_id u \<in> set (map e_id (users st))" by simp
  with a have "e_id u \<in> set (map JNum [1..currentId st - 1])" by (simp add: ids_ok_def)
  then show ?thesis by auto
qed

lemma find_by_id:
  "distinct (map e_id xs) \<Longrightarrow> u \<in> set xs \<Longrightarrow> find (\<lambda>v. e_id v = e_id u) xs = Some u"
  by (induction xs) (auto simp add: image_iff)

lemma InMemory_findById_stored:
  assumes "ids_ok st" and "u \<in> set (users st)" and "parseInt i = Some k" and "e_id u = JNum k"
  shows "InMemory_findById now st i = (Inr (Some (rehydrate now u)), st)"
proof -
  have "find (\<lambda>v. e_id v = e_id u) (users st) = Some u"
    using assms(1,2) by (simp add: find_by_id ids_ok_distinct)
  with assms(3,4) show ?thesis
    by (simp add: InMemory_findById_def strict_eq_number_def)
qed

lemma find_False: "find (\<lambda>u. False) xs = None"
  by (induction xs) simp_all

lemma InMemory_findById_NaN:
  "parseInt i = None \<Longrightarrow> InMemory_findById now st i = (Inr None, st)"
proof -
  assume "parseInt i = None"
  then show ?thesis by (simp add: InMemory_findById_def strict_eq_number_def find_False)
qed


lemma run_creates_InMemory_users:
  "run_creates InMemoryAdapter st calls = (outs, st') \<Longrightarrow>
   map toDTO (users st') = map toDTO (users st) @ successes outs"
proof (induction calls arbitrary: st outs st')
  case Nil
  then show ?case by (simp add: successes_def)
next
  case (Cons call calls)
  obtain now data where call: "call = (now, data)" by (cases call)
  obtain out st1 where ex: "CreateUserUseCase_execute InMemoryAdapter now st data = (out, st1)"
    by (cases "CreateUserUseCase_execute InMemoryAdapter now st data")
  obtain outs1 st2 where run: "run_creates InMemoryAdapter st1 calls = (outs1, st2)"
    by (cases "run_creates InMemoryAdapter st1 calls")
  from Cons.prems call ex run have outs: "outs = out # outs1" and st': "st' = st2" by simp_all
  from Cons.IH [OF run] have ih: "map toDTO (users st2) = map toDTO (users st1) @ successes outs1" .
  show ?case
  proof (cases "truthy (rq_name data) \<and> truthy (rq_email data)")
    case True
    with ex have "map toDTO (users st1) = map toDTO (users st) @ successes [out]"
      by (auto simp add: CreateUser_InMemory successes_def toDTO_def)
    with ih outs st' show ?thesis by (simp add: successes_def)
  next
    case False
    with ex have "st1 = st" and "successes [out] = []"
      by (auto simp add: CreateUser_invalid successes_def)
    with ih outs st' show ?thesis by (simp add: successes_def)
  qed
qed

lemma run_creates_InMemory_fields:
  "run_creates InMemoryAdapter st calls = (outs, st') \<Longrightarrow>
   map d_name (successes outs) = map rq_name (filter valid_request (map snd calls))
   \<and> map d_email (successes outs) = map rq_email (filter valid_request (map snd calls))
   \<and> map d_role (successes outs) =
       map (\<lambda>data. if truthy (rq_role data) then rq_role data else JStr ''user'')
         (filter valid_request (map snd calls))
   \<and> map d_id (successes outs) =
       map JNum [currentId st..currentId st + int (length (successes outs)) - 1]"
proof (induction calls arbitrary: st outs st')
  case Nil
  then show ?case by (simp add: successes_def)
next
  case (Cons call calls)
  obtain now data where call: "call = (now, data)" by (cases call)
  obtain out st1 where ex: "CreateUserUseCase_execute InMemoryAdapter now st data = (out, st1)"
    by (cases "CreateUserUseCase_execute InMemoryAdapter now st data")
  obtain outs1 st2 where run: "run_creates InMemoryAdapter st1 calls = (outs1, st2)"
    by (cases "run_creates InMemoryAdapter st1 calls")
  from Cons.prems call ex run have outs: "outs = out # outs1" by simp
  note ih = Cons.IH [OF run]
  show ?case
  proof (cases "truthy (rq_name data) \<and> truthy (rq_email data)")
    case True
    with ex have out: "out = Inr \<lparr>d_id = JNum (currentId st), d_name = rq_name data,
        d_email = rq_email data, d_role = js_or (rq_role data) (JStr ''user'')\<rparr>"
      and c: "currentId st1 = currentId st + 1"
      by (auto simp add: CreateUser_InMemory)
    have s: "successes outs = \<lparr>d_id = JNum (currentId st), d_name = rq_name data,
        d_email = rq_email data, d_role = js_or (rq_role data) (JStr ''user'')\<rparr> # successes outs1"
      using outs out by (simp add: successes_def)
    have u: "[currentId st..currentId st + int (length (successes outs1))] =
          currentId st # [currentId st + 1..currentId st + int (length (successes outs1))]"
      by (simp add: upto_rec1)
    from ih s c True call u show ?thesis
      by (simp add: valid_request_def js_or_def add.commute)
  next
    case False
    with ex have "st1 = st" and "out = Inl (new_Error ''Name and email are required'')"
      by (auto simp add: CreateUser_invalid)
    with outs have "successes outs = successes outs1" by (simp add: successes_def)
    with ih False call \<open>st1 = st\<close> show ?thesis by (simp add: valid_request_def)
  qed
qed


lemma leading_digits_Cons:
  "leading_digits s \<noteq> [] \<Longrightarrow> \<exists>c r. s = c # r \<and> is_digit 10 c"
  by (cases s) (auto simp add: leading_digits_def split: if_splits)

lemma parseInt_string_leading_digits:
  assumes "leading_digits s \<noteq> []" and "radix_value 10 (leading_digits s) \<noteq> 0"
  shows "parseInt_string s = Some (int (radix_value 10 (leading_digits s)))"
proof -
  from assms(1) obtain c r where s: "s = c # r" and c: "is_digit 10 c"
    using leading_digits_Cons by blast
  have "strip_hex_prefix s = (10, s)"
  proof (rule ccontr)
    assume "strip_hex_prefix s \<noteq> (10, s)"
    then obtain b r' where "s = CHR ''0'' # b # r'" and "b = CHR ''x'' \<or> b = CHR ''X''"
      by (auto simp add: strip_hex_prefix_def split: list.splits if_splits)
    then have "leading_digits s = ''0''"
      using not_digit_x by (auto simp add: leading_digits_def is_digit_def digit_value_def)
    then have "radix_value 10 (leading_digits s) = 0"
      by (simp add: radix_value_def digit_of_def digit_value_def)
    with assms(2) show False by simp
  qed
  with parseInt_string_digit_first [OF c, of r] s assms(1) show ?thesis
    by (simp add: leading_digits_def)
qed

lemma parseInt_string_no_digit:
  assumes "leading_digits (snd (strip_sign (dropWhile is_ws s))) = []"
  shows "parseInt_string s = None"
proof -
  obtain sign S1 where ss: "strip_sign (dropWhile is_ws s) = (sign, S1)"
    by (cases "strip_sign (dropWhile is_ws s)")
  with assms have nd: "takeWhile (is_digit 10) S1 = []" by (simp add: leading_digits_def)
  have "strip_hex_prefix S1 = (10, S1)"
  proof (cases S1)
    case Nil
    then show ?thesis by (simp add: strip_hex_prefix_def)
  next
    case (Cons a r)
    with nd have "\<not> is_digit 10 a" by (auto split: if_splits)
    then have "a \<noteq> CHR ''0''" by (auto simp add: is_digit_def digit_value_def)
    with Cons show ?thesis by (simp add: strip_hex_prefix_def split: list.splits)
  qed
  with ss nd show ?thesis by (simp add: parseInt_string_def)
qed


section \<open>Create, then read back\<close>

text \<open>
  Claim C1, as stated, has the DTO read back carry the role of the input.  With the empty
  string as role, \<open>CreateUser.execute\<close> on the in-memory adapter returns the id \<open>1\<close>, and
  \<open>GetUserById.execute\<close> on that id yields a DTO whose role is \<open>user\<close>.
\<close>

theorem create_then_get_empty_role_counterexample:
  "fst (CreateUserUseCase_execute InMemoryAdapter 0 InMemoryUserRepository_new
      \<lparr>rq_name = JStr ''x'', rq_email = JStr ''x@y'', rq_role = JStr ''''\<rparr>) =
     Inr \<lparr>d_id = JNum 1, d_name = JStr ''x'', d_email = JStr ''x@y'', d_role = JStr ''user''\<rparr>
   \<and> fst (GetUserByIdUseCase_execute InMemoryAdapter 1
      (snd (CreateUserUseCase_execute InMemoryAdapter 0 InMemoryUserRepository_new
        \<lparr>rq_name = JStr ''x'', rq_email = JStr ''x@y'', rq_role = JStr ''''\<rparr>)) (JNum 1)) =
     Inr \<lparr>d_id = JNum 1, d_name = JStr ''x'', d_email = JStr ''x@y'', d_role = JStr ''user''\<rparr>
   \<and> fst (GetUserByIdUseCase_execute InMemoryAdapter 1
      (snd (CreateUserUseCase_execute InMemoryAdapter 0 InMemoryUserRepository_new
        \<lparr>rq_name = JStr ''x'', rq_email = JStr ''x@y'', rq_role = JStr ''''\<rparr>)) (JNum 1)) \<noteq>
     Inr \<lparr>d_id = JNum 1, d_name = JStr ''x'', d_email = JStr ''x@y'', d_role = JStr ''''\<rparr>"
proof -
  have ex: "CreateUserUseCase_execute InMemoryAdapter 0 InMemoryUserRepository_new
      \<lparr>rq_name = JStr ''x'', rq_email = JStr ''x@y'', rq_role = JStr ''''\<rparr> =
     (Inr \<lparr>d_id = JNum 1, d_name = JStr ''x'', d_email = JStr ''x@y'', d_role = JStr ''user''\<rparr>,
      \<lparr>users = [\<lparr>e_id = JNum 1, e_name = JStr ''x'', e_email = JStr ''x@y'',
         e_role = JStr ''user'', e_createdAt = JDate 0\<rparr>], currentId = 2\<rparr>)"
    by (simp add: CreateUser_InMemory InMemoryUserRepository_new_def js_or_def)
  have p: "parseInt (JNum 1) = Some 1" by (rule parseInt_number) simp
  show ?thesis
    unfolding ex
    by (simp add: GetUserByIdUseCase_execute_def InMemoryAdapter_def InMemory_findById_def p
          strict_eq_number_def rehydrate_def new_UserEntity_def toDTO_def js_or_def
          del: parseInt.simps)
qed

text \<open>
  Claim C1, amended.  In every state that the in-memory adapter reaches through
  \<open>CreateUser.execute\<close> calls, for every input with truthy \<open>name\<close> and \<open>email\<close>,
  \<open>CreateUser.execute\<close> succeeds, and \<open>GetUserById.execute\<close> on the id it returned (the
  number, or its decimal string as a route parameter carries it) yields the same DTO; its
  \<open>name\<close> and \<open>email\<close> are the input's, and its \<open>role\<close> is the input's when that is truthy
  and \<open>user\<close> when the role was omitted or is otherwise falsy (the empty string, \<open>null\<close>).
\<close>

theorem create_then_get_roundtrip:
  assumes "truthy (rq_name data)" and "truthy (rq_email data)"
    and "run_creates InMemoryAdapter InMemoryUserRepository_new calls = (outs, st)"
  shows "\<exists>k st'.
      CreateUserUseCase_execute InMemoryAdapter now st data =
        (Inr \<lparr>d_id = JNum k, d_name = rq_name data, d_email = rq_email data,
              d_role = (if truthy (rq_role data) then rq_role data else JStr ''user'')\<rparr>, st')
      \<and> GetUserByIdUseCase_execute InMemoryAdapter now' st' (JNum k) =
        (Inr \<lparr>d_id = JNum k, d_name = rq_name data, d_email = rq_email data,
              d_role = (if truthy (rq_role data) then rq_role data else JStr ''user'')\<rparr>, st')
      \<and> GetUserByIdUseCase_execute InMemoryAdapter now' st' (JStr (number_toString k)) =
        (Inr \<lparr>d_id = JNum k, d_name = rq_name data, d_email = rq_email data,
              d_role = (if truthy (rq_role data) then rq_role data else JStr ''user'')\<rparr>, st')"
proof -
  let ?role = "if truthy (rq_role data) then rq_role data else JStr ''user''"
  let ?u = "\<lparr>e_id = JNum (currentId st), e_name = rq_name data, e_email = rq_email data,
             e_role = ?role, e_createdAt = JDate now\<rparr>"
  let ?dto = "\<lparr>d_id = JNum (currentId st), d_name = rq_name data, d_email = rq_email data,
               d_role = ?role\<rparr>"
  let ?st' = "st\<lparr>users := users st @ [?u], currentId := currentId st + 1\<rparr>"
  have ok: "ids_ok st"
    using ids_ok_run_creates [OF ids_ok_new, of calls] assms(3) by simp
  then have pos: "0 \<le> currentId st" by (simp add: ids_ok_def)
  have ex: "CreateUserUseCase_execute InMemoryAdapter now st data = (Inr ?dto, ?st')"
    using assms(1,2) by (simp add: CreateUser_InMemory js_or_def)
  have ok': "ids_ok ?st'"
    using ids_ok_CreateUser [OF ok, of now data] ex by simp
  have mem: "?u \<in> set (users ?st')" by simp
  have re: "toDTO (rehydrate now' ?u) = ?dto"
    by (simp add: toDTO_rehydrate) (simp add: toDTO_def)
  have f1: "InMemory_findById now' ?st' (JNum (currentId st)) =
              (Inr (Some (rehydrate now' ?u)), ?st')"
    by (rule InMemory_findById_stored [OF ok' mem parseInt_number [OF pos]]) simp
  have f2: "InMemory_findById now' ?st' (JStr (number_toString (currentId st))) =
              (Inr (Some (rehydrate now' ?u)), ?st')"
    by (rule InMemory_findById_stored [OF ok' mem parseInt_number_string [OF pos]]) simp
  have g1: "GetUserByIdUseCase_execute InMemoryAdapter now' ?st' (JNum (currentId st)) =
              (Inr ?dto, ?st')"
    using f1 re by (simp add: GetUserByIdUseCase_execute_def InMemoryAdapter_def)
  have g2: "GetUserByIdUseCase_execute InMemoryAdapter now' ?st'
              (JStr (number_toString (currentId st))) = (Inr ?dto, ?st')"
    using f2 re by (simp add: GetUserByIdUseCase_execute_def InMemoryAdapter_def)
  from ex g1 g2 show ?thesis by blast
qed

theorem create_then_get_roundtrip_witness:
  "\<exists>k st'.
      CreateUserUseCase_execute InMemoryAdapter 10
        (snd (run_creates InMemoryAdapter InMemoryUserRepository_new
           [(5, \<lparr>rq_name = JStr ''x'', rq_email = JStr ''x@y'', rq_role = JStr ''admin''\<rparr>)]))
        \<lparr>rq_name = JStr ''John'', rq_email = JStr ''john@x.com'', rq_role = JUndefined\<rparr> =
        (Inr \<lparr>d_id = JNum k, d_name = JStr ''John'', d_email = JStr ''john@x.com'',
              d_role = JStr ''user''\<rparr>, st')
      \<and> GetUserByIdUseCase_execute InMemoryAdapter 20 st' (JNum k) =
        (Inr \<lparr>d_id = JNum k, d_name = JStr ''John'', d_email = JStr ''john@x.com'',
              d_role = JStr ''user''\<rparr>, st')
      \<and> GetUserByIdUseCase_execute InMemoryAdapter 20 st' (JStr (number_toString k)) =
        (Inr \<lparr>d_id = JNum k, d_name = JStr ''John'', d_email = JStr ''john@x.com'',
              d_role = JStr ''user''\<rparr>, st')"
  using create_then_get_roundtrip
     [of "\<lparr>rq_name = JStr ''John'', rq_email = JStr ''john@x.com'', rq_role = JUndefined\<rparr>"
         "[(5, \<lparr>rq_name = JStr ''x'', rq_email = JStr ''x@y'', rq_role = JStr ''admin''\<rparr>)]"
         "fst (run_creates InMemoryAdapter InMemoryUserRepository_new
           [(5, \<lparr>rq_name = JStr ''x'', rq_email = JStr ''x@y'', rq_role = JStr ''admin''\<rparr>)])"
         "snd (run_creates InMemoryAdapter InMemoryUserRepository_new
           [(5, \<lparr>rq_name = JStr ''x'', rq_email = JStr ''x@y'', rq_role = JStr ''admin''\<rparr>)])"
         10 20]
  by simp

section \<open>GetAllUsers\<close>

text \<open>
  Claim C7.  On the in-memory adapter as constructed, \<open>GetAllUsers.execute\<close> returns the
  empty sequence.  After any history of \<open>CreateUser.execute\<close> calls it returns exactly the
  DTOs that the successful calls returned, one for each, in the order of the calls (the
  insertion order): their number is the number of valid requests, their names, emails and
  roles are those of the valid requests in order, and their ids are \<open>1, \<dots>, N\<close>.  It
  leaves the store as it was.  Over any adapter it maps the entities of \<open>findAll\<close> to
  DTOs in the adapter's order and leaves the state that \<open>findAll\<close> left.
\<close>

theorem GetAllUsers_returns_creations_in_order:
  "GetAllUsersUseCase_execute InMemoryAdapter now InMemoryUserRepository_new =
     (Inr [], InMemoryUserRepository_new)
   \<and> (run_creates InMemoryAdapter InMemoryUserRepository_new calls = (outs, st) \<longrightarrow>
        GetAllUsersUseCase_execute InMemoryAdapter now st = (Inr (successes outs), st)
        \<and> length (successes outs) = length (filter valid_request (map snd calls))
        \<and> map d_name (successes outs) = map rq_name (filter valid_request (map snd calls))
        \<and> map d_email (successes outs) = map rq_email (filter valid_request (map snd calls))
        \<and> map d_role (successes outs) =
            map (\<lambda>data. if truthy (rq_role data) then rq_role data else JStr ''user'')
              (filter valid_request (map snd calls))
        \<and> map d_id (successes outs) = map JNum [1..int (length (successes outs))])
   \<and> (findAll userRepository now s = (Inr entities, s') \<longrightarrow>
        GetAllUsersUseCase_execute userRepository now s = (Inr (map toDTO entities), s'))"
proof (intro conjI impI)
  show "GetAllUsersUseCase_execute InMemoryAdapter now InMemoryUserRepository_new =
          (Inr [], InMemoryUserRepository_new)"
    by (simp add: GetAllUsers_InMemory InMemoryUserRepository_new_def)
next
  assume run: "run_creates InMemoryAdapter InMemoryUserRepository_new calls = (outs, st)"
  from run_creates_InMemory_users [OF run]
  show "GetAllUsersUseCase_execute InMemoryAdapter now st = (Inr (successes outs), st)"
    by (simp add: GetAllUsers_InMemory InMemoryUserRepository_new_def)
  note f = run_creates_InMemory_fields [OF run]
  from f show n: "map d_name (successes outs) = map rq_name (filter valid_request (map snd calls))"
    by simp
  from arg_cong [OF n, of length]
  show "length (successes outs) = length (filter valid_request (map snd calls))" by simp
  from f show "map d_email (successes outs) = map rq_email (filter valid_request (map snd calls))"
    by simp
  from f show "map d_role (successes outs) =
            map (\<lambda>data. if truthy (rq_role data) then rq_role data else JStr ''user'')
              (filter valid_request (map snd calls))"
    by simp
  from f show "map d_id (successes outs) = map JNum [1..int (length (successes outs))]"
    by (simp add: InMemoryUserRepository_new_def)
next
  assume "findAll userRepository now s = (Inr entities, s')"
  then show "GetAllUsersUseCase_execute userRepository now s = (Inr (map toDTO entities), s')"
    by (simp add: GetAllUsersUseCase_execute_def)
qed

theorem GetAllUsers_returns_creations_in_order_witness:
  "GetAllUsersUseCase_execute InMemoryAdapter 9
     (snd (run_creates InMemoryAdapter InMemoryUserRepository_new
        [(1, \<lparr>rq_name = JStr ''a'', rq_email = JStr ''a@x'', rq_role = JUndefined\<rparr>),
         (2, \<lparr>rq_name = JStr ''b'', rq_email = JUndefined, rq_role = JUndefined\<rparr>),
         (3, \<lparr>rq_name = JStr ''c'', rq_email = JStr ''c@x'', rq_role = JStr ''admin''\<rparr>)])) =
   (Inr [\<lparr>d_id = JNum 1, d_name = JStr ''a'', d_email = JStr ''a@x'', d_role = JStr ''user''\<rparr>,
         \<lparr>d_id = JNum 2, d_name = JStr ''c'', d_email = JStr ''c@x'', d_role = JStr ''admin''\<rparr>],
    \<lparr>users = [\<lparr>e_id = JNum 1, e_name = JStr ''a'', e_email = JStr ''a@x'',
                e_role = JStr ''user'', e_createdAt = JDate 1\<rparr>,
              \<lparr>e_id = JNum 2, e_name = JStr ''c'', e_email = JStr ''c@x'',
                e_role = JStr ''admin'', e_createdAt = JDate 3\<rparr>], currentId = 3\<rparr>)"
  using GetAllUsers_returns_creations_in_order
     [where now = 9
        and calls = "[(1, \<lparr>rq_name = JStr ''a'', rq_email = JStr ''a@x'', rq_role = JUndefined\<rparr>),
         (2, \<lparr>rq_name = JStr ''b'', rq_email = JUndefined, rq_role = JUndefined\<rparr>),
         (3, \<lparr>rq_name = JStr ''c'', rq_email = JStr ''c@x'', rq_role = JStr ''admin''\<rparr>)]"
        and outs = "fst (run_creates InMemoryAdapter InMemoryUserRepository_new
        [(1, \<lparr>rq_name = JStr ''a'', rq_email = JStr ''a@x'', rq_role = JUndefined\<rparr>),
         (2, \<lparr>rq_name = JStr ''b'', rq_email = JUndefined, rq_role = JUndefined\<rparr>),
         (3, \<lparr>rq_name = JStr ''c'', rq_email = JStr ''c@x'', rq_role = JStr ''admin''\<rparr>)])"
        and st = "snd (run_creates InMemoryAdapter InMemoryUserRepository_new
        [(1, \<lparr>rq_name = JStr ''a'', rq_email = JStr ''a@x'', rq_role = JUndefined\<rparr>),
         (2, \<lparr>rq_name = JStr ''b'', rq_email = JUndefined, rq_role = JUndefined\<rparr>),
         (3, \<lparr>rq_name = JStr ''c'', rq_email = JStr ''c@x'', rq_role = JStr ''admin''\<rparr>)])"
        and userRepository = InMemoryAdapter and s = InMemoryUserRepository_new
        and entities = "[]" and s' = InMemoryUserRepository_new]
  by (simp add: CreateUser_InMemory CreateUser_invalid InMemoryUserRepository_new_def
        successes_def js_or_def valid_request_def)

section \<open>findById of the in-memory adapter and parseInt\<close>

text \<open>
  Claim C10, as stated, has every string with no leading digits give the absent result.
  \<open>parseInt\<close> skips leading white space and reads a sign: with one stored user, whose id
  is \<open>1\<close>, the strings \<open>+1\<close> and \<open> 1\<close> have no leading digit and yet find that user.
\<close>

theorem InMemory_findById_sign_counterexample:
  "leading_digits ''+1'' = [] \<and> leading_digits '' 1'' = []
   \<and> fst (InMemory_findById 5
       \<lparr>users = [\<lparr>e_id = JNum 1, e_name = JStr ''x'', e_email = JStr ''x@y'',
          e_role = JStr ''user'', e_createdAt = JDate 0\<rparr>], currentId = 2\<rparr> (JStr ''+1'')) =
     Inr (Some \<lparr>e_id = JNum 1, e_name = JStr ''x'', e_email = JStr ''x@y'',
          e_role = JStr ''user'', e_createdAt = JDate 0\<rparr>)
   \<and> fst (InMemory_findById 5
       \<lparr>users = [\<lparr>e_id = JNum 1, e_name = JStr ''x'', e_email = JStr ''x@y'',
          e_role = JStr ''user'', e_createdAt = JDate 0\<rparr>], currentId = 2\<rparr> (JStr '' 1'')) =
     Inr (Some \<lparr>e_id = JNum 1, e_name = JStr ''x'', e_email = JStr ''x@y'',
          e_role = JStr ''user'', e_createdAt = JDate 0\<rparr>)
   \<and> snd (CreateUserUseCase_execute InMemoryAdapter 0 InMemoryUserRepository_new
       \<lparr>rq_name = JStr ''x'', rq_email = JStr ''x@y'', rq_role = JUndefined\<rparr>) =
     \<lparr>users = [\<lparr>e_id = JNum 1, e_name = JStr ''x'', e_email = JStr ''x@y'',
          e_role = JStr ''user'', e_createdAt = JDate 0\<rparr>], currentId = 2\<rparr>"
proof -
  have p1: "parseInt (JStr ''+1'') = Some 1"
    by (simp add: parseInt_string_def strip_sign_def strip_hex_prefix_def is_ws_def is_digit_def
          digit_value_def radix_value_def digit_of_def)
  have p2: "parseInt (JStr '' 1'') = Some 1"
    by (simp add: parseInt_string_def strip_sign_def strip_hex_prefix_def is_ws_def is_digit_def
          digit_value_def radix_value_def digit_of_def)
  have l: "leading_digits ''+1'' = [] \<and> leading_digits '' 1'' = []"
    by (simp add: leading_digits_def is_digit_def digit_value_def)
  show ?thesis
    using l
    by (simp add: InMemory_findById_def p1 p2 strict_eq_number_def rehydrate_def
          new_UserEntity_def js_or_def CreateUser_InMemory InMemoryUserRepository_new_def
          del: parseInt.simps)
qed

text \<open>
  Claim C10, amended.  The in-memory adapter's \<open>findById\<close> compares the stored ids with
  \<open>parseInt\<close> of the supplied id.  In every state reached through \<open>CreateUser.execute\<close>
  calls, for every stored user with id \<open>n\<close>, every string whose leading decimal digits
  parse to \<open>n\<close> (such as \<open>1abc\<close> for the id \<open>1\<close>) returns that user; and every string
  that has no digit after its leading white space and an optional sign returns the absent
  result.
\<close>

theorem InMemory_findById_follows_parseInt:
  assumes "run_creates InMemoryAdapter InMemoryUserRepository_new calls = (outs, st)"
  shows "(u \<in> set (users st) \<and> e_id u = JNum n \<and> leading_digits s \<noteq> []
            \<and> int (radix_value 10 (leading_digits s)) = n \<longrightarrow>
          InMemory_findById now st (JStr s) = (Inr (Some (rehydrate now u)), st))
       \<and> (leading_digits (snd (strip_sign (dropWhile is_ws s'))) = [] \<longrightarrow>
          InMemory_findById now st (JStr s') = (Inr None, st))"
proof (intro conjI impI)
  assume a: "u \<in> set (users st) \<and> e_id u = JNum n \<and> leading_digits s \<noteq> []
            \<and> int (radix_value 10 (leading_digits s)) = n"
  have ok: "ids_ok st"
    using ids_ok_run_creates [OF ids_ok_new, of calls] assms by simp
  from ids_ok_range [OF ok, of u] a have "1 \<le> n" by auto
  with a have nz: "radix_value 10 (leading_digits s) \<noteq> 0" by auto
  from a have "parseInt (JStr s) = Some n"
    by (simp add: parseInt_string_leading_digits [OF _ nz])
  with a ok show "InMemory_findById now st (JStr s) = (Inr (Some (rehydrate now u)), st)"
    by (simp add: InMemory_findById_stored del: parseInt.simps)
next
  assume "leading_digits (snd (strip_sign (dropWhile is_ws s'))) = []"
  then have "parseInt (JStr s') = None" by (simp add: parseInt_string_no_digit)
  then show "InMemory_findById now st (JStr s') = (Inr None, st)"
    by (rule InMemory_findById_NaN)
qed

theorem InMemory_findById_follows_parseInt_witness:
  "InMemory_findById 5
       \<lparr>users = [\<lparr>e_id = JNum 1, e_name = JStr ''x'', e_email = JStr ''x@y'',
          e_role = JStr ''user'', e_createdAt = JDate 0\<rparr>], currentId = 2\<rparr> (JStr ''1abc'') =
     (Inr (Some \<lparr>e_id = JNum 1, e_name = JStr ''x'', e_email = JStr ''x@y'',
          e_role = JStr ''user'', e_createdAt = JDate 0\<rparr>),
      \<lparr>users = [\<lparr>e_id = JNum 1, e_name = JStr ''x'', e_email = JStr ''x@y'',
          e_role = JStr ''user'', e_createdAt = JDate 0\<rparr>], currentId = 2\<rparr>)
   \<and> InMemory_findById 5
       \<lparr>users = [\<lparr>e_id = JNum 1, e_name = JStr ''x'', e_email = JStr ''x@y'',
          e_role = JStr ''user'', e_createdAt = JDate 0\<rparr>], currentId = 2\<rparr> (JStr ''abc'') =
     (Inr None,
      \<lparr>users = [\<lparr>e_id = JNum 1, e_name = JStr ''x'', e_email = JStr ''x@y'',
          e_role = JStr ''user'', e_createdAt = JDate 0\<rparr>], currentId = 2\<rparr>)"
proof -
  have run: "run_creates InMemoryAdapter InMemoryUserRepository_new
      [(0, \<lparr>rq_name = JStr ''x'', rq_email = JStr ''x@y'', rq_role = JUndefined\<rparr>)] =
    ([Inr \<lparr>d_id = JNum 1, d_name = JStr ''x'', d_email = JStr ''x@y'', d_role = JStr ''user''\<rparr>],
     \<lparr>users = [\<lparr>e_id = JNum 1, e_name = JStr ''x'', e_email = JStr ''x@y'',
          e_role = JStr ''user'', e_createdAt = JDate 0\<rparr>], currentId = 2\<rparr>)"
    by (simp add: CreateUser_InMemory InMemoryUserRepository_new_def js_or_def)
  have l1: "leading_digits ''1abc'' = ''1''"
    by (simp add: leading_digits_def is_digit_def digit_value_def)
  have l2: "leading_digits (snd (strip_sign (dropWhile is_ws ''abc''))) = []"
    by (simp add: leading_digits_def is_digit_def digit_value_def strip_sign_def is_ws_def)
  have v: "int (radix_value 10 ''1'') = 1"
    by (simp add: radix_value_def digit_of_def digit_value_def)
  from InMemory_findById_follows_parseInt [OF run,
      of "\<lparr>e_id = JNum 1, e_name = JStr ''x'', e_email = JStr ''x@y'',
          e_role = JStr ''user'', e_createdAt = JDate 0\<rparr>" 1 "''1abc''" 5 "''abc''"]
  show ?thesis
    using l1 l2 v by (simp add: rehydrate_def new_UserEntity_def js_or_def)
qed

section \<open>The two adapters behind the same use cases\<close>

lemma length_decimal: "n < 10 ^ k \<Longrightarrow> 0 < k \<Longrightarrow> length (decimal n) \<le> k"
proof (induction n arbitrary: k rule: decimal.induct)
  case (1 n)
  show ?case
  proof (cases "n < 10")
    case True
    with 1(3) show ?thesis by (subst decimal.simps) simp
  next
    case False
    obtain j where k: "k = Suc j" using 1(3) by (cases k) auto
    with 1(2) have d: "n div 10 < 10 ^ j" by (simp add: less_mult_imp_div_less mult.commute)
    have "0 < j"
    proof (rule ccontr)
      assume "\<not> 0 < j"
      with d have "n div 10 = 0" by simp
      with False show False by simp
    qed
    from 1(1) [OF False d this] k False show ?thesis by (subst decimal.simps) simp
  qed
qed

lemma is_digit_zero: "is_digit 16 (CHR ''0'')"
  by (simp add: is_digit_def digit_value_def)

lemma is_object_id_object_id: "n < 10 ^ 24 \<Longrightarrow> is_object_id (object_id n)"
proof -
  assume "n < 10 ^ 24"
  then have "length (decimal n) \<le> 24" by (rule length_decimal) simp
  moreover have "\<forall>c \<in> set (decimal n). is_digit 16 c"
    using decimal_digits [of n] is_digit_10_16 by blast
  ultimately show ?thesis
    by (auto simp add: is_object_id_def object_id_def list_all_iff is_digit_zero)
qed

lemma radix_value_zeros: "radix_value 10 (replicate k (CHR ''0'') @ Z) = radix_value 10 Z"
proof -
  have "foldl (\<lambda>a c. a * 10 + digit_of c) 0 (replicate k (CHR ''0'')) = 0"
    by (induction k) (simp_all add: digit_of_def digit_value_def)
  then show ?thesis by (simp add: radix_value_def)
qed

lemma radix_value_object_id: "radix_value 10 (object_id n) = n"
  by (simp add: object_id_def radix_value_zeros radix_value_decimal)

lemma inj_object_id: "inj object_id"
proof (rule injI)
  fix x y assume "object_id x = object_id y"
  then have "radix_value 10 (object_id x) = radix_value 10 (object_id y)" by simp
  then show "x = y" by (simp add: radix_value_object_id)
qed

lemma store_ok_distinct: "store_ok m \<Longrightarrow> distinct (map doc_id (ds_docs m))"
  by (simp add: store_ok_def distinct_map inj_on_def inj_object_id [THEN injD])

lemma find_by_key:
  "distinct (map f xs) \<Longrightarrow> u \<in> set xs \<Longrightarrow> find (\<lambda>v. f v = f u) xs = Some u"
  by (induction xs) (auto simp add: image_iff)

lemma store_ok_new: "store_ok DocumentStore_new"
  by (simp add: store_ok_def DocumentStore_new_def)

lemma sim_new: "sim InMemoryUserRepository_new DocumentStore_new"
  by (simp add: sim_def ids_ok_new store_ok_new)
     (simp add: InMemoryUserRepository_new_def DocumentStore_new_def)

lemma CreateUser_Mongo:
  assumes "rq_name data = JStr n" and "n \<noteq> []" and "rq_email data = JStr e" and "e \<noteq> []"
    and "truthy (rq_role data) \<longrightarrow> is_string (rq_role data)"
    and "JStr e \<notin> set (map doc_email (ds_docs m))"
  shows "CreateUserUseCase_execute (MongoAdapter (DocumentStoreModel read_order)) now m data =
     (Inr \<lparr>d_id = JStr (object_id (ds_next m)), d_name = rq_name data, d_email = rq_email data,
           d_role = js_or (rq_role data) (JStr ''user'')\<rparr>,
      m\<lparr>ds_docs := ds_docs m @ [\<lparr>doc_id = object_id (ds_next m), doc_name = rq_name data,
            doc_email = rq_email data, doc_role = js_or (rq_role data) (JStr ''user''),
            doc_createdAt = JDate now\<rparr>], ds_next := Suc (ds_next m)\<rparr>)"
proof -
  from assms(5) have "\<exists>r. js_or (rq_role data) (JStr ''user'') = JStr r"
    by (cases "rq_role data") (simp_all add: is_string_def js_or_def)
  then obtain r where r: "js_or (rq_role data) (JStr ''user'') = JStr r" ..
  with assms show ?thesis
    by (simp add: CreateUserUseCase_execute_def MongoAdapter_def Mongo_create_def
          DocumentStoreModel_def ds_save_def new_UserEntity_def mapToEntity_def toDTO_def Let_def)
qed

lemma GetAllUsers_Mongo:
  "GetAllUsersUseCase_execute (MongoAdapter (DocumentStoreModel read_order)) now m =
     (Inr (map doc_dto (read_order (ds_docs m))), m)"
  by (simp add: GetAllUsersUseCase_execute_def MongoAdapter_def Mongo_findAll_def
        DocumentStoreModel_def ds_find_def mapToEntity_def new_UserEntity_def toDTO_def comp_def
        doc_dto_def)

lemma GetUserById_Mongo_stored:
  assumes "store_ok m" and "d \<in> set (ds_docs m)" and "is_object_id (doc_id d)"
  shows "GetUserByIdUseCase_execute (MongoAdapter (DocumentStoreModel read_order)) now m (JStr (doc_id d)) =
     (Inr \<lparr>d_id = JStr (doc_id d), d_name = doc_name d, d_email = doc_email d,
           d_role = doc_role d\<rparr>, m)"
proof -
  have "find (\<lambda>v. doc_id v = doc_id d) (ds_docs m) = Some d"
    using assms(1,2) by (simp add: find_by_key store_ok_distinct)
  with assms(3) show ?thesis
    by (simp add: GetUserByIdUseCase_execute_def MongoAdapter_def Mongo_findById_def
          DocumentStoreModel_def ds_findById_def mapToEntity_def new_UserEntity_def toDTO_def)
qed

lemma GetUserById_InMemory_stored:
  assumes "ids_ok r" and "u \<in> set (users r)"
  shows "GetUserByIdUseCase_execute InMemoryAdapter now r (e_id u) = (Inr (toDTO u), r)"
proof -
  from ids_ok_range [OF assms] obtain k where k: "e_id u = JNum k" "1 \<le> k" by blast
  then have "parseInt (e_id u) = Some k" using parseInt_number [of k] by simp
  from InMemory_findById_stored [OF assms this k(1), of now]
  show ?thesis
    by (simp add: GetUserByIdUseCase_execute_def InMemoryAdapter_def toDTO_rehydrate)
qed


lemma outcome_view_simps:
  "outcome_view (Inr d) = Some (dto_view d)" "outcome_view (Inl err) = None"
  by (simp_all add: outcome_view_def)

lemma store_ok_append:
  "store_ok m \<Longrightarrow>
   store_ok (m\<lparr>ds_docs := ds_docs m @ [d\<lparr>doc_id := object_id (ds_next m)\<rparr>],
               ds_next := Suc (ds_next m)\<rparr>)"
  by (simp add: store_ok_def)

lemma valid_string_request:
  assumes "valid_request data" and "string_request data"
  shows "\<exists>n e. rq_name data = JStr n \<and> n \<noteq> [] \<and> rq_email data = JStr e \<and> e \<noteq> []"
proof -
  from assms have "\<exists>n. rq_name data = JStr n \<and> n \<noteq> []"
    by (cases "rq_name data") (simp_all add: valid_request_def string_request_def is_string_def)
  moreover from assms have "\<exists>e. rq_email data = JStr e \<and> e \<noteq> []"
    by (cases "rq_email data") (simp_all add: valid_request_def string_request_def is_string_def)
  ultimately show ?thesis by blast
qed

lemma sim_CreateUser_valid:
  assumes s: "sim r m" and v: "valid_request data" and t: "string_request data"
    and fresh: "rq_email data \<notin> set (map doc_email (ds_docs m))"
  shows "\<exists>d1 d2 r1 m1.
      CreateUserUseCase_execute InMemoryAdapter now r data = (Inr d1, r1)
      \<and> CreateUserUseCase_execute (MongoAdapter (DocumentStoreModel read_order)) now m data = (Inr d2, m1)
      \<and> dto_view d1 = dto_view d2 \<and> sim r1 m1
      \<and> set (map doc_email (ds_docs m1)) = insert (rq_email data) (set (map doc_email (ds_docs m)))"
proof -
  from valid_string_request [OF v t] obtain n e where
    ne: "rq_name data = JStr n" "n \<noteq> []" "rq_email data = JStr e" "e \<noteq> []" by blast
  from t have role: "truthy (rq_role data) \<longrightarrow> is_string (rq_role data)"
    by (simp add: string_request_def)
  from fresh ne have fresh': "JStr e \<notin> set (map doc_email (ds_docs m))" by simp
  let ?role = "js_or (rq_role data) (JStr ''user'')"
  let ?u = "\<lparr>e_id = JNum (currentId r), e_name = rq_name data, e_email = rq_email data,
             e_role = ?role, e_createdAt = JDate now\<rparr>"
  let ?d = "\<lparr>doc_id = object_id (ds_next m), doc_name = rq_name data,
             doc_email = rq_email data, doc_role = ?role, doc_createdAt = JDate now\<rparr>"
  let ?r1 = "r\<lparr>users := users r @ [?u], currentId := currentId r + 1\<rparr>"
  let ?m1 = "m\<lparr>ds_docs := ds_docs m @ [?d], ds_next := Suc (ds_next m)\<rparr>"
  from v have e1: "CreateUserUseCase_execute InMemoryAdapter now r data =
      (Inr \<lparr>d_id = JNum (currentId r), d_name = rq_name data, d_email = rq_email data,
            d_role = ?role\<rparr>, ?r1)"
    by (simp add: CreateUser_InMemory valid_request_def)
  have e2: "CreateUserUseCase_execute (MongoAdapter (DocumentStoreModel read_order)) now m data =
      (Inr \<lparr>d_id = JStr (object_id (ds_next m)), d_name = rq_name data,
            d_email = rq_email data, d_role = ?role\<rparr>, ?m1)"
    by (rule CreateUser_Mongo [OF ne role fresh'])
  from s have ok1: "ids_ok ?r1"
    using ids_ok_CreateUser [of r now data] e1 by (simp add: sim_def)
  from s have ok2: "store_ok ?m1"
    using store_ok_append [of m ?d] by (simp add: sim_def)
  from s have views: "map entity_view (users ?r1) = map doc_view (ds_docs ?m1)"
    by (simp add: sim_def entity_view_def doc_view_def)
  have "sim ?r1 ?m1" using ok1 ok2 views unfolding sim_def by blast
  moreover have "set (map doc_email (ds_docs ?m1)) =
      insert (rq_email data) (set (map doc_email (ds_docs m)))" by simp
  ultimately show ?thesis using e1 e2 by (auto simp add: dto_view_def)
qed

lemma sim_run_creates:
  assumes "sim r m"
    and "list_all string_request (filter valid_request (map snd calls))"
    and "distinct (map rq_email (filter valid_request (map snd calls)))"
    and "set (map doc_email (ds_docs m))
           \<inter> set (map rq_email (filter valid_request (map snd calls))) = {}"
    and "run_creates InMemoryAdapter r calls = (outs1, r')"
    and "run_creates (MongoAdapter (DocumentStoreModel read_order)) m calls = (outs2, m')"
  shows "map outcome_view outs1 = map outcome_view outs2 \<and> sim r' m'"
  using assms
proof (induction calls arbitrary: r m outs1 outs2 r' m')
  case Nil
  then show ?case by simp
next
  case (Cons call calls)
  obtain now data where call: "call = (now, data)" by (cases call)
  from Cons.prems(2) call
  have ts: "list_all string_request (filter valid_request (map snd calls))"
    by (simp split: if_splits)
  show ?case
  proof (cases "valid_request data")
    case True
    from Cons.prems(2) True call have t: "string_request data" by simp
    from Cons.prems(4) True call
    have fresh: "rq_email data \<notin> set (map doc_email (ds_docs m))" by auto
    from sim_CreateUser_valid [OF Cons.prems(1) True t fresh, of now]
    obtain d1 d2 r1 m1 where
      e1: "CreateUserUseCase_execute InMemoryAdapter now r data = (Inr d1, r1)"
      and e2: "CreateUserUseCase_execute (MongoAdapter (DocumentStoreModel read_order)) now m data = (Inr d2, m1)"
      and dv: "dto_view d1 = dto_view d2" and s1: "sim r1 m1"
      and em: "set (map doc_email (ds_docs m1)) =
                 insert (rq_email data) (set (map doc_email (ds_docs m)))"
      by blast
    obtain o1 r2 where run1: "run_creates InMemoryAdapter r1 calls = (o1, r2)"
      by (cases "run_creates InMemoryAdapter r1 calls")
    obtain o2 m2 where run2: "run_creates (MongoAdapter (DocumentStoreModel read_order)) m1 calls = (o2, m2)"
      by (cases "run_creates (MongoAdapter (DocumentStoreModel read_order)) m1 calls")
    from Cons.prems(3) True call
    have dist: "distinct (map rq_email (filter valid_request (map snd calls)))"
      and notin: "rq_email data \<notin> set (map rq_email (filter valid_request (map snd calls)))"
      by simp_all
    from Cons.prems(4) True call em notin
    have disj: "set (map doc_email (ds_docs m1))
           \<inter> set (map rq_email (filter valid_request (map snd calls))) = {}"
      by auto
    from Cons.IH [OF s1 ts dist disj run1 run2]
    have ih: "map outcome_view o1 = map outcome_view o2 \<and> sim r2 m2" .
    from Cons.prems(5) call e1 run1 have a: "outs1 = Inr d1 # o1" "r' = r2" by simp_all
    from Cons.prems(6) call e2 run2 have b: "outs2 = Inr d2 # o2" "m' = m2" by simp_all
    from ih a b dv show ?thesis by (simp add: outcome_view_simps)
  next
    case False
    then have inv: "\<not> truthy (rq_name data) \<or> \<not> truthy (rq_email data)"
      by (simp add: valid_request_def)
    obtain o1 r2 where run1: "run_creates InMemoryAdapter r calls = (o1, r2)"
      by (cases "run_creates InMemoryAdapter r calls")
    obtain o2 m2 where run2: "run_creates (MongoAdapter (DocumentStoreModel read_order)) m calls = (o2, m2)"
      by (cases "run_creates (MongoAdapter (DocumentStoreModel read_order)) m calls")
    from Cons.prems(3) False call
    have dist: "distinct (map rq_email (filter valid_request (map snd calls)))" by simp
    from Cons.prems(4) False call
    have disj: "set (map doc_email (ds_docs m))
           \<inter> set (map rq_email (filter valid_request (map snd calls))) = {}" by simp
    from Cons.IH [OF Cons.prems(1) ts dist disj run1 run2]
    have ih: "map outcome_view o1 = map outcome_view o2 \<and> sim r2 m2" .
    from Cons.prems(5) call run1 inv
    have a: "outs1 = Inl (new_Error ''Name and email are required'') # o1" "r' = r2"
      by (simp_all add: CreateUser_invalid)
    from Cons.prems(6) call run2 inv
    have b: "outs2 = Inl (new_Error ''Name and email are required'') # o2" "m' = m2"
      by (simp_all add: CreateUser_invalid)
    from ih a b show ?thesis by (simp add: outcome_view_simps)
  qed
qed


lemma CreateUser_Mongo_cases:
  assumes "CreateUserUseCase_execute (MongoAdapter (DocumentStoreModel read_order)) now m data = (out, m1)"
  shows "(\<exists>err. out = Inl err \<and> m1 = m)
       \<or> (\<exists>d. out = Inr (doc_dto d) \<and> ds_docs m1 = ds_docs m @ [d])"
proof (cases "truthy (rq_name data) \<and> truthy (rq_email data)")
  case False
  with assms show ?thesis by (auto simp add: CreateUser_invalid)
next
  case True
  let ?role = "if truthy (rq_role data) then rq_role data else JStr ''user''"
  obtain res m2 where sv: "ds_save now m (rq_name data) (rq_email data) ?role = (res, m2)"
    by (cases "ds_save now m (rq_name data) (rq_email data) ?role")
  show ?thesis
  proof (cases res)
    case (Inl err)
    with sv have "m2 = m"
      by (auto simp add: ds_save_def Let_def split: option.splits if_splits)
    with assms True sv Inl show ?thesis
      by (auto simp add: CreateUser_valid MongoAdapter_def Mongo_create_def DocumentStoreModel_def)
  next
    case (Inr d)
    with sv have "ds_docs m2 = ds_docs m @ [d]"
      by (auto simp add: ds_save_def Let_def split: option.splits if_splits)
    moreover have "toDTO (mapToEntity now d) = doc_dto d"
      by (simp add: toDTO_def mapToEntity_def new_UserEntity_def doc_dto_def)
    ultimately show ?thesis using assms True sv Inr
      by (auto simp add: CreateUser_valid MongoAdapter_def Mongo_create_def DocumentStoreModel_def)
  qed
qed

lemma run_creates_Mongo_docs:
  "run_creates (MongoAdapter (DocumentStoreModel read_order)) m calls = (outs, m') \<Longrightarrow>
   map doc_dto (ds_docs m') = map doc_dto (ds_docs m) @ successes outs"
proof (induction calls arbitrary: m outs m')
  case Nil
  then show ?case by (simp add: successes_def)
next
  case (Cons call calls)
  obtain now data where call: "call = (now, data)" by (cases call)
  obtain out m1 where
    ex: "CreateUserUseCase_execute (MongoAdapter (DocumentStoreModel read_order)) now m data = (out, m1)"
    by (cases "CreateUserUseCase_execute (MongoAdapter (DocumentStoreModel read_order)) now m data")
  obtain outs1 m2 where run: "run_creates (MongoAdapter (DocumentStoreModel read_order)) m1 calls = (outs1, m2)"
    by (cases "run_creates (MongoAdapter (DocumentStoreModel read_order)) m1 calls")
  from Cons.prems call ex run have outs: "outs = out # outs1" and m': "m' = m2" by simp_all
  from Cons.IH [OF run]
  have ih: "map doc_dto (ds_docs m2) = map doc_dto (ds_docs m1) @ successes outs1" .
  from CreateUser_Mongo_cases [OF ex] show ?case
  proof
    assume "\<exists>err. out = Inl err \<and> m1 = m"
    with ih outs m' show ?thesis by (auto simp add: successes_def)
  next
    assume "\<exists>d. out = Inr (doc_dto d) \<and> ds_docs m1 = ds_docs m @ [d]"
    with ih outs m' show ?thesis by (auto simp add: successes_def)
  qed
qed

lemma length_run_creates:
  "run_creates userRepository st calls = (outs, st') \<Longrightarrow> length outs = length calls"
proof (induction calls arbitrary: st outs st')
  case Nil
  then show ?case by simp
next
  case (Cons call calls)
  then show ?case by (cases call) (auto split: prod.splits)
qed

lemma length_successes: "length (successes outs) \<le> length outs"
  by (induction outs) (auto simp add: successes_def split: sum.splits)

text \<open>
  Claim C5, as stated, has the two adapters give the same outcome on the same inputs, with
  DTOs agreeing on \<open>name\<close>, \<open>email\<close> and \<open>role\<close>.  Four inputs on which they do not:
  \<^item> after the same \<open>CreateUser.execute\<close> call on each, \<open>GetUserById.execute\<close> on the id
    string \<open>1\<close> succeeds behind the in-memory adapter (whose ids are the integers from 1)
    and fails with the not-found error behind the document-store adapter (whose ids are
    the store's own);
  \<^item> a second \<open>CreateUser.execute\<close> with an email already stored succeeds behind the
    in-memory adapter and fails behind the document-store adapter, whose schema declares
    \<open>email\<close> unique;
  \<^item> a name, an email or a role that is a number comes back as that number behind the
    in-memory adapter and as its string form behind the document-store adapter, whose
    schema declares the fields \<open>String\<close>;
  \<^item> behind a store that reads its collection back in another order than that of
    insertion (the port leaves the order to the adapter), \<open>GetAllUsers.execute\<close> returns
    the DTOs in another order than the in-memory adapter does.
\<close>

theorem adapters_differ_counterexample:
  "fst (GetUserByIdUseCase_execute InMemoryAdapter 1
      (snd (CreateUserUseCase_execute InMemoryAdapter 0 InMemoryUserRepository_new
        \<lparr>rq_name = JStr ''John'', rq_email = JStr ''john@x.com'', rq_role = JUndefined\<rparr>))
      (JStr ''1'')) =
     Inr \<lparr>d_id = JNum 1, d_name = JStr ''John'', d_email = JStr ''john@x.com'',
          d_role = JStr ''user''\<rparr>
   \<and> fst (GetUserByIdUseCase_execute (MongoAdapter (DocumentStoreModel (\<lambda>docs. docs))) 1
      (snd (CreateUserUseCase_execute (MongoAdapter (DocumentStoreModel (\<lambda>docs. docs))) 0
        DocumentStore_new
        \<lparr>rq_name = JStr ''John'', rq_email = JStr ''john@x.com'', rq_role = JUndefined\<rparr>))
      (JStr ''1'')) =
     Inl (JsError ''Error'' ''User not found'')
   \<and> map outcome_view (fst (run_creates InMemoryAdapter InMemoryUserRepository_new
        [(0, \<lparr>rq_name = JStr ''John'', rq_email = JStr ''john@x.com'', rq_role = JUndefined\<rparr>),
         (1, \<lparr>rq_name = JStr ''Jo'', rq_email = JStr ''john@x.com'', rq_role = JUndefined\<rparr>)])) =
     [Some (JStr ''John'', JStr ''john@x.com'', JStr ''user''),
      Some (JStr ''Jo'', JStr ''john@x.com'', JStr ''user'')]
   \<and> map outcome_view (fst (run_creates (MongoAdapter (DocumentStoreModel (\<lambda>docs. docs)))
        DocumentStore_new
        [(0, \<lparr>rq_name = JStr ''John'', rq_email = JStr ''john@x.com'', rq_role = JUndefined\<rparr>),
         (1, \<lparr>rq_name = JStr ''Jo'', rq_email = JStr ''john@x.com'', rq_role = JUndefined\<rparr>)])) =
     [Some (JStr ''John'', JStr ''john@x.com'', JStr ''user''), None]
   \<and> map outcome_view (fst (run_creates InMemoryAdapter InMemoryUserRepository_new
        [(0, \<lparr>rq_name = JNum 5, rq_email = JNum 6, rq_role = JNum 7\<rparr>)])) =
     [Some (JNum 5, JNum 6, JNum 7)]
   \<and> map outcome_view (fst (run_creates (MongoAdapter (DocumentStoreModel (\<lambda>docs. docs)))
        DocumentStore_new
        [(0, \<lparr>rq_name = JNum 5, rq_email = JNum 6, rq_role = JNum 7\<rparr>)])) =
     [Some (JStr ''5'', JStr ''6'', JStr ''7'')]
   \<and> map_sum id (map dto_view) (fst (GetAllUsersUseCase_execute InMemoryAdapter 2
        (snd (run_creates InMemoryAdapter InMemoryUserRepository_new
          [(0, \<lparr>rq_name = JStr ''John'', rq_email = JStr ''john@x.com'', rq_role = JUndefined\<rparr>),
           (1, \<lparr>rq_name = JStr ''Jane'', rq_email = JStr ''jane@x.com'',
                rq_role = JUndefined\<rparr>)])))) =
     Inr [(JStr ''John'', JStr ''john@x.com'', JStr ''user''),
          (JStr ''Jane'', JStr ''jane@x.com'', JStr ''user'')]
   \<and> map_sum id (map dto_view) (fst (GetAllUsersUseCase_execute
        (MongoAdapter (DocumentStoreModel rev)) 2
        (snd (run_creates (MongoAdapter (DocumentStoreModel rev)) DocumentStore_new
          [(0, \<lparr>rq_name = JStr ''John'', rq_email = JStr ''john@x.com'', rq_role = JUndefined\<rparr>),
           (1, \<lparr>rq_name = JStr ''Jane'', rq_email = JStr ''jane@x.com'',
                rq_role = JUndefined\<rparr>)])))) =
     Inr [(JStr ''Jane'', JStr ''jane@x.com'', JStr ''user''),
          (JStr ''John'', JStr ''john@x.com'', JStr ''user'')]"
proof -
  let ?john = "\<lparr>rq_name = JStr ''John'', rq_email = JStr ''john@x.com'', rq_role = JUndefined\<rparr>"
  let ?jo = "\<lparr>rq_name = JStr ''Jo'', rq_email = JStr ''john@x.com'', rq_role = JUndefined\<rparr>"
  let ?jane = "\<lparr>rq_name = JStr ''Jane'', rq_email = JStr ''jane@x.com'', rq_role = JUndefined\<rparr>"
  let ?five = "\<lparr>rq_name = JNum 5, rq_email = JNum 6, rq_role = JNum 7\<rparr>"
  let ?u1 = "\<lparr>e_id = JNum 1, e_name = JStr ''John'', e_email = JStr ''john@x.com'',
         e_role = JStr ''user'', e_createdAt = JDate 0\<rparr>"
  let ?d1 = "\<lparr>doc_id = object_id 0, doc_name = JStr ''John'',
         doc_email = JStr ''john@x.com'', doc_role = JStr ''user'', doc_createdAt = JDate 0\<rparr>"
  let ?r1 = "\<lparr>users = [?u1], currentId = 2\<rparr>"
  let ?m1 = "\<lparr>ds_docs = [?d1], ds_next = Suc 0\<rparr>"
  have e1: "CreateUserUseCase_execute InMemoryAdapter 0 InMemoryUserRepository_new ?john =
     (Inr \<lparr>d_id = JNum 1, d_name = JStr ''John'', d_email = JStr ''john@x.com'',
           d_role = JStr ''user''\<rparr>, ?r1)"
    by (simp add: CreateUser_InMemory InMemoryUserRepository_new_def js_or_def)
  have e2: "CreateUserUseCase_execute (MongoAdapter (DocumentStoreModel read_order)) 0
       DocumentStore_new ?john =
     (Inr \<lparr>d_id = JStr (object_id 0), d_name = JStr ''John'', d_email = JStr ''john@x.com'',
           d_role = JStr ''user''\<rparr>, ?m1)" for read_order
    using CreateUser_Mongo [of ?john "''John''" "''john@x.com''" DocumentStore_new read_order 0]
    by (simp add: DocumentStore_new_def js_or_def)
  have e3: "CreateUserUseCase_execute InMemoryAdapter 1 ?r1 data =
     (Inr \<lparr>d_id = JNum 2, d_name = rq_name data, d_email = rq_email data,
           d_role = JStr ''user''\<rparr>,
      \<lparr>users = [?u1, \<lparr>e_id = JNum 2, e_name = rq_name data, e_email = rq_email data,
         e_role = JStr ''user'', e_createdAt = JDate 1\<rparr>], currentId = 3\<rparr>)"
    if "data = ?jo \<or> data = ?jane" for data
    using that by (auto simp add: CreateUser_InMemory js_or_def)
  have e4: "CreateUserUseCase_execute (MongoAdapter (DocumentStoreModel (\<lambda>docs. docs))) 1 ?m1 ?jo =
     (Inl (JsError ''MongoServerError'' ''E11000 duplicate key error''), ?m1)"
    by (simp add: CreateUser_valid MongoAdapter_def Mongo_create_def DocumentStoreModel_def
          ds_save_def)
  have e5: "CreateUserUseCase_execute (MongoAdapter (DocumentStoreModel rev)) 1 ?m1 ?jane =
     (Inr \<lparr>d_id = JStr (object_id (Suc 0)), d_name = JStr ''Jane'',
           d_email = JStr ''jane@x.com'', d_role = JStr ''user''\<rparr>,
      \<lparr>ds_docs = [?d1, \<lparr>doc_id = object_id (Suc 0), doc_name = JStr ''Jane'',
         doc_email = JStr ''jane@x.com'', doc_role = JStr ''user'', doc_createdAt = JDate 1\<rparr>],
       ds_next = Suc (Suc 0)\<rparr>)"
    using CreateUser_Mongo [of ?jane "''Jane''" "''jane@x.com''" ?m1 rev 1]
    by (simp add: js_or_def)
  have e6: "CreateUserUseCase_execute InMemoryAdapter 0 InMemoryUserRepository_new ?five =
     (Inr \<lparr>d_id = JNum 1, d_name = JNum 5, d_email = JNum 6, d_role = JNum 7\<rparr>,
      \<lparr>users = [\<lparr>e_id = JNum 1, e_name = JNum 5, e_email = JNum 6,
         e_role = JNum 7, e_createdAt = JDate 0\<rparr>], currentId = 2\<rparr>)"
    by (simp add: CreateUser_InMemory InMemoryUserRepository_new_def js_or_def)
  have n5: "number_toString 5 = ''5''" by code_simp
  have n6: "number_toString 6 = ''6''" by code_simp
  have n7: "number_toString 7 = ''7''" by code_simp
  have e7: "fst (CreateUserUseCase_execute (MongoAdapter (DocumentStoreModel (\<lambda>docs. docs))) 0
       DocumentStore_new ?five) =
     Inr \<lparr>d_id = JStr (object_id 0), d_name = JStr ''5'', d_email = JStr ''6'',
          d_role = JStr ''7''\<rparr>"
    by (simp add: CreateUser_valid MongoAdapter_def Mongo_create_def DocumentStoreModel_def
          ds_save_def DocumentStore_new_def n5 n6 n7 mapToEntity_def new_UserEntity_def toDTO_def
          js_or_def Let_def)
  have p: "parseInt (JStr ''1'') = Some 1"
    by (simp add: parseInt_string_def strip_sign_def strip_hex_prefix_def is_ws_def is_digit_def
          digit_value_def radix_value_def digit_of_def)
  have g1: "GetUserByIdUseCase_execute InMemoryAdapter 1 ?r1 (JStr ''1'') =
     (Inr \<lparr>d_id = JNum 1, d_name = JStr ''John'', d_email = JStr ''john@x.com'',
           d_role = JStr ''user''\<rparr>, ?r1)"
    by (simp add: GetUserByIdUseCase_execute_def InMemoryAdapter_def InMemory_findById_def p
          strict_eq_number_def rehydrate_def new_UserEntity_def toDTO_def js_or_def
          del: parseInt.simps)
  have g2: "GetUserByIdUseCase_execute (MongoAdapter (DocumentStoreModel (\<lambda>docs. docs))) 1 ?m1
       (JStr ''1'') = (Inl (JsError ''Error'' ''User not found''), ?m1)"
    by (simp add: GetUserByIdUseCase_execute_def MongoAdapter_def Mongo_findById_def
          DocumentStoreModel_def ds_findById_def is_object_id_def new_Error_def)
  have c1: "fst (GetUserByIdUseCase_execute InMemoryAdapter 1
      (snd (CreateUserUseCase_execute InMemoryAdapter 0 InMemoryUserRepository_new ?john))
      (JStr ''1'')) =
     Inr \<lparr>d_id = JNum 1, d_name = JStr ''John'', d_email = JStr ''john@x.com'',
          d_role = JStr ''user''\<rparr>"
    by (simp add: e1 g1)
  have c2: "fst (GetUserByIdUseCase_execute (MongoAdapter (DocumentStoreModel (\<lambda>docs. docs))) 1
      (snd (CreateUserUseCase_execute (MongoAdapter (DocumentStoreModel (\<lambda>docs. docs))) 0
        DocumentStore_new ?john)) (JStr ''1'')) = Inl (JsError ''Error'' ''User not found'')"
    by (simp add: e2 g2)
  have c3: "map outcome_view (fst (run_creates InMemoryAdapter InMemoryUserRepository_new
        [(0, ?john), (1, ?jo)])) =
     [Some (JStr ''John'', JStr ''john@x.com'', JStr ''user''),
      Some (JStr ''Jo'', JStr ''john@x.com'', JStr ''user'')]"
    by (simp add: e1 e3 outcome_view_simps dto_view_def)
  have c4: "map outcome_view (fst (run_creates (MongoAdapter (DocumentStoreModel (\<lambda>docs. docs)))
        DocumentStore_new [(0, ?john), (1, ?jo)])) =
     [Some (JStr ''John'', JStr ''john@x.com'', JStr ''user''), None]"
    by (simp add: e2 e4 outcome_view_simps dto_view_def)
  have c5: "map outcome_view (fst (run_creates InMemoryAdapter InMemoryUserRepository_new
        [(0, ?five)])) = [Some (JNum 5, JNum 6, JNum 7)]"
    by (simp add: e6 outcome_view_simps dto_view_def)
  have c6: "map outcome_view (fst (run_creates (MongoAdapter (DocumentStoreModel (\<lambda>docs. docs)))
        DocumentStore_new [(0, ?five)])) = [Some (JStr ''5'', JStr ''6'', JStr ''7'')]"
    using e7
    by (cases "CreateUserUseCase_execute (MongoAdapter (DocumentStoreModel (\<lambda>docs. docs))) 0
          DocumentStore_new ?five") (simp add: outcome_view_simps dto_view_def)
  have c7: "map_sum id (map dto_view) (fst (GetAllUsersUseCase_execute InMemoryAdapter 2
        (snd (run_creates InMemoryAdapter InMemoryUserRepository_new
          [(0, ?john), (1, ?jane)])))) =
     Inr [(JStr ''John'', JStr ''john@x.com'', JStr ''user''),
          (JStr ''Jane'', JStr ''jane@x.com'', JStr ''user'')]"
    by (simp add: e1 e3 GetAllUsers_InMemory toDTO_def dto_view_def)
  have c8: "map_sum id (map dto_view) (fst (GetAllUsersUseCase_execute
        (MongoAdapter (DocumentStoreModel rev)) 2
        (snd (run_creates (MongoAdapter (DocumentStoreModel rev)) DocumentStore_new
          [(0, ?john), (1, ?jane)])))) =
     Inr [(JStr ''Jane'', JStr ''jane@x.com'', JStr ''user''),
          (JStr ''John'', JStr ''john@x.com'', JStr ''user'')]"
    by (simp add: e2 e5 GetAllUsers_Mongo doc_dto_def dto_view_def)
  from c1 c2 c3 c4 c5 c6 c7 c8 show ?thesis by blast
qed

text \<open>
  Claim C5, amended.  Take any history of \<open>CreateUser.execute\<close> calls in which every valid
  request has strings as \<open>name\<close> and \<open>email\<close> and a role that is a string or falsy, and in
  which no two valid requests carry the same email, run behind the in-memory adapter and
  behind the document-store adapter over the modelled store, each from its initial state;
  the store may read its collection back in any order.  Then call by call the outcomes
  agree: both fail, or both succeed with DTOs that agree on \<open>name\<close>, \<open>email\<close> and \<open>role\<close>.
  Afterwards \<open>GetAllUsers.execute\<close> succeeds behind both with the same DTOs as to \<open>name\<close>,
  \<open>email\<close> and \<open>role\<close>, each as often behind the one as behind the other, and position by
  position when the store reads back in the order of insertion; and for each successful
  creation, \<open>GetUserById.execute\<close> on the id that the adapter itself returned for it
  succeeds behind both, with DTOs that agree on \<open>name\<close>, \<open>email\<close> and \<open>role\<close>.  (The
  bound on the length of the history keeps the store's counter within its 24-digit
  identifiers.)
\<close>

theorem adapters_agree_on_use_case_contract:
  assumes strings: "list_all string_request (filter valid_request (map snd calls))"
    and dist: "distinct (map rq_email (filter valid_request (map snd calls)))"
    and bound: "length calls < 10 ^ 24"
    and perm: "\<forall>docs. mset (read_order docs) = mset docs"
    and mem: "run_creates InMemoryAdapter InMemoryUserRepository_new calls = (mem_outs, r)"
    and mongo: "run_creates (MongoAdapter (DocumentStoreModel read_order)) DocumentStore_new calls =
                  (mongo_outs, m)"
  shows "map outcome_view mem_outs = map outcome_view mongo_outs
     \<and> (\<exists>dtos1 dtos2.
          GetAllUsersUseCase_execute InMemoryAdapter now r = (Inr dtos1, r)
          \<and> GetAllUsersUseCase_execute (MongoAdapter (DocumentStoreModel read_order)) now m =
              (Inr dtos2, m)
          \<and> mset (map dto_view dtos1) = mset (map dto_view dtos2)
          \<and> (read_order (ds_docs m) = ds_docs m \<longrightarrow> map dto_view dtos1 = map dto_view dtos2))
     \<and> (k < length (successes mem_outs) \<longrightarrow>
          (\<exists>d1 d2.
            GetUserByIdUseCase_execute InMemoryAdapter now r (d_id (successes mem_outs ! k)) =
              (Inr d1, r)
            \<and> GetUserByIdUseCase_execute (MongoAdapter (DocumentStoreModel read_order)) now m
                (d_id (successes mongo_outs ! k)) = (Inr d2, m)
            \<and> dto_view d1 = dto_view d2))"
proof -
  have disj: "set (map doc_email (ds_docs DocumentStore_new))
           \<inter> set (map rq_email (filter valid_request (map snd calls))) = {}"
    by (simp add: DocumentStore_new_def)
  from sim_run_creates [OF sim_new strings dist disj mem mongo]
  have views: "map outcome_view mem_outs = map outcome_view mongo_outs" and s: "sim r m"
    by simp_all
  from s have ok1: "ids_ok r" and ok2: "store_ok m"
    and ev: "map entity_view (users r) = map doc_view (ds_docs m)"
    by (simp_all add: sim_def)
  have s1: "successes mem_outs = map toDTO (users r)"
    using run_creates_InMemory_users [OF mem] by (simp add: InMemoryUserRepository_new_def)
  have s2: "successes mongo_outs = map doc_dto (ds_docs m)"
    using run_creates_Mongo_docs [OF mongo] by (simp add: DocumentStore_new_def)
  have dv1: "\<And>u. dto_view (toDTO u) = entity_view u"
    by (simp add: dto_view_def toDTO_def entity_view_def)
  have dv2: "\<And>d. dto_view (doc_dto d) = doc_view d"
    by (simp add: dto_view_def doc_dto_def doc_view_def)
  have all: "map dto_view (map toDTO (users r)) = map dto_view (map doc_dto (ds_docs m))"
    using ev by (simp add: dv1 dv2 comp_def)
  have A: "mset (map dto_view (map toDTO (users r))) =
             mset (map dto_view (map doc_dto (ds_docs m)))"
    by (rule arg_cong [OF all])
  have B: "mset (map dto_view (map doc_dto (read_order (ds_docs m)))) =
             mset (map dto_view (map doc_dto (ds_docs m)))"
    using perm by simp
  have ms: "mset (map dto_view (map toDTO (users r))) =
          mset (map dto_view (map doc_dto (read_order (ds_docs m))))"
    unfolding B by (rule A)
  have getAll: "\<exists>dtos1 dtos2.
          GetAllUsersUseCase_execute InMemoryAdapter now r = (Inr dtos1, r)
          \<and> GetAllUsersUseCase_execute (MongoAdapter (DocumentStoreModel read_order)) now m =
              (Inr dtos2, m)
          \<and> mset (map dto_view dtos1) = mset (map dto_view dtos2)
          \<and> (read_order (ds_docs m) = ds_docs m \<longrightarrow> map dto_view dtos1 = map dto_view dtos2)"
  proof (intro exI conjI impI)
    show "GetAllUsersUseCase_execute InMemoryAdapter now r = (Inr (map toDTO (users r)), r)"
      by (rule GetAllUsers_InMemory)
    show "GetAllUsersUseCase_execute (MongoAdapter (DocumentStoreModel read_order)) now m =
            (Inr (map doc_dto (read_order (ds_docs m))), m)"
      by (rule GetAllUsers_Mongo)
    show "mset (map dto_view (map toDTO (users r))) =
            mset (map dto_view (map doc_dto (read_order (ds_docs m))))"
      by (rule ms)
    assume eq: "read_order (ds_docs m) = ds_docs m"
    show "map dto_view (map toDTO (users r)) =
            map dto_view (map doc_dto (read_order (ds_docs m)))"
      unfolding eq by (rule all)
  qed
  have getById: "\<exists>d1 d2.
            GetUserByIdUseCase_execute InMemoryAdapter now r (d_id (successes mem_outs ! k)) =
              (Inr d1, r)
            \<and> GetUserByIdUseCase_execute (MongoAdapter (DocumentStoreModel read_order)) now m
                (d_id (successes mongo_outs ! k)) = (Inr d2, m)
            \<and> dto_view d1 = dto_view d2" if k: "k < length (successes mem_outs)"
  proof -
    from k s1 have k1: "k < length (users r)" by simp
    from arg_cong [OF ev, of length] k1 have k2: "k < length (ds_docs m)" by simp
    let ?u = "users r ! k" and ?d = "ds_docs m ! k"
    from k1 have mem1: "?u \<in> set (users r)" by simp
    from k2 have mem2: "?d \<in> set (ds_docs m)" by simp
    from k1 s1 have id1: "d_id (successes mem_outs ! k) = e_id ?u" by (simp add: toDTO_def)
    from k2 s2 have id2: "d_id (successes mongo_outs ! k) = JStr (doc_id ?d)"
      by (simp add: doc_dto_def)
    from ok2 have "length (map doc_id (ds_docs m)) = length (map object_id [0..<ds_next m])"
      unfolding store_ok_def by (rule arg_cong)
    then have len: "length (ds_docs m) = ds_next m" by simp
    from ok2 k2 len have "map doc_id (ds_docs m) ! k = map object_id [0..<ds_next m] ! k"
      by (simp add: store_ok_def)
    with k2 len have oid: "doc_id ?d = object_id k" by simp
    have "length (ds_docs m) \<le> length calls"
      using arg_cong [OF s2, of length] length_successes [of mongo_outs]
        length_run_creates [OF mongo] by simp
    with k2 bound have "k < 10 ^ 24" by simp
    with oid have wf: "is_object_id (doc_id ?d)" by (simp add: is_object_id_object_id)
    have g1: "GetUserByIdUseCase_execute InMemoryAdapter now r (e_id ?u) = (Inr (toDTO ?u), r)"
      by (rule GetUserById_InMemory_stored [OF ok1 mem1])
    have g2: "GetUserByIdUseCase_execute (MongoAdapter (DocumentStoreModel read_order)) now m
                (JStr (doc_id ?d)) = (Inr (doc_dto ?d), m)"
      using GetUserById_Mongo_stored [OF ok2 mem2 wf, of read_order now] by (simp add: doc_dto_def)
    from ev have "map entity_view (users r) ! k = map doc_view (ds_docs m) ! k" by simp
    with k1 k2 have "entity_view ?u = doc_view ?d" by simp
    then have "dto_view (toDTO ?u) = dto_view (doc_dto ?d)" by (simp add: dv1 dv2)
    with g1 g2 id1 id2 show ?thesis by simp
  qed
  from views getAll getById show ?thesis by blast
qed

theorem adapters_agree_on_use_case_contract_witness:
  "map outcome_view (fst (run_creates InMemoryAdapter InMemoryUserRepository_new
      [(0, \<lparr>rq_name = JStr ''John'', rq_email = JStr ''john@x.com'', rq_role = JNull\<rparr>),
       (1, \<lparr>rq_name = JNum 0, rq_email = JUndefined, rq_role = JNum 3\<rparr>),
       (2, \<lparr>rq_name = JStr ''Jane'', rq_email = JStr ''jane@x.com'', rq_role = JStr ''admin''\<rparr>)])) =
   map outcome_view (fst (run_creates (MongoAdapter (DocumentStoreModel rev)) DocumentStore_new
      [(0, \<lparr>rq_name = JStr ''John'', rq_email = JStr ''john@x.com'', rq_role = JNull\<rparr>),
       (1, \<lparr>rq_name = JNum 0, rq_email = JUndefined, rq_role = JNum 3\<rparr>),
       (2, \<lparr>rq_name = JStr ''Jane'', rq_email = JStr ''jane@x.com'', rq_role = JStr ''admin''\<rparr>)]))
   \<and> map outcome_view (fst (run_creates InMemoryAdapter InMemoryUserRepository_new
      [(0, \<lparr>rq_name = JStr ''John'', rq_email = JStr ''john@x.com'', rq_role = JNull\<rparr>),
       (1, \<lparr>rq_name = JNum 0, rq_email = JUndefined, rq_role = JNum 3\<rparr>),
       (2, \<lparr>rq_name = JStr ''Jane'', rq_email = JStr ''jane@x.com'', rq_role = JStr ''admin''\<rparr>)])) =
     [Some (JStr ''John'', JStr ''john@x.com'', JStr ''user''), None,
      Some (JStr ''Jane'', JStr ''jane@x.com'', JStr ''admin'')]"
  using adapters_agree_on_use_case_contract
     [where calls = "[(0, \<lparr>rq_name = JStr ''John'', rq_email = JStr ''john@x.com'', rq_role = JNull\<rparr>),
       (1, \<lparr>rq_name = JNum 0, rq_email = JUndefined, rq_role = JNum 3\<rparr>),
       (2, \<lparr>rq_name = JStr ''Jane'', rq_email = JStr ''jane@x.com'', rq_role = JStr ''admin''\<rparr>)]"
      and mem_outs = "fst (run_creates InMemoryAdapter InMemoryUserRepository_new
      [(0, \<lparr>rq_name = JStr ''John'', rq_email = JStr ''john@x.com'', rq_role = JNull\<rparr>),
       (1, \<lparr>rq_name = JNum 0, rq_email = JUndefined, rq_role = JNum 3\<rparr>),
       (2, \<lparr>rq_name = JStr ''Jane'', rq_email = JStr ''jane@x.com'', rq_role = JStr ''admin''\<rparr>)])"
      and r = "snd (run_creates InMemoryAdapter InMemoryUserRepository_new
      [(0, \<lparr>rq_name = JStr ''John'', rq_email = JStr ''john@x.com'', rq_role = JNull\<rparr>),
       (1, \<lparr>rq_name = JNum 0, rq_email = JUndefined, rq_role = JNum 3\<rparr>),
       (2, \<lparr>rq_name = JStr ''Jane'', rq_email = JStr ''jane@x.com'', rq_role = JStr ''admin''\<rparr>)])"
      and read_order = rev
      and mongo_outs = "fst (run_creates (MongoAdapter (DocumentStoreModel rev)) DocumentStore_new
      [(0, \<lparr>rq_name = JStr ''John'', rq_email = JStr ''john@x.com'', rq_role = JNull\<rparr>),
       (1, \<lparr>rq_name = JNum 0, rq_email = JUndefined, rq_role = JNum 3\<rparr>),
       (2, \<lparr>rq_name = JStr ''Jane'', rq_email = JStr ''jane@x.com'', rq_role = JStr ''admin''\<rparr>)])"
      and m = "snd (run_creates (MongoAdapter (DocumentStoreModel rev)) DocumentStore_new
      [(0, \<lparr>rq_name = JStr ''John'', rq_email = JStr ''john@x.com'', rq_role = JNull\<rparr>),
       (1, \<lparr>rq_name = JNum 0, rq_email = JUndefined, rq_role = JNum 3\<rparr>),
       (2, \<lparr>rq_name = JStr ''Jane'', rq_email = JStr ''jane@x.com'', rq_role = JStr ''admin''\<rparr>)])"
      and now = 9 and k = 0]
  by (simp add: string_request_def is_string_def valid_request_def
        CreateUser_InMemory CreateUser_invalid InMemoryUserRepository_new_def js_or_def
        outcome_view_simps dto_view_def)

theorem GetUserById_absent_is_not_found_404_witness:
  "GetUsersController_getById InMemoryAdapter 0 InMemoryUserRepository_new (JStr ''abc'') =
     (\<lparr>statusCode = 404, success = False, r_message = ''User not found'', r_data = NoData\<rparr>,
      InMemoryUserRepository_new)
   \<and> GetUsersController_getById (MongoAdapter (DocumentStoreModel (\<lambda>docs. docs))) 0
       DocumentStore_new (JStr ''abc'') =
     (\<lparr>statusCode = 404, success = False, r_message = ''User not found'', r_data = NoData\<rparr>,
      DocumentStore_new)"
  using GetUserById_absent_is_not_found_404
     [where userRepository = InMemoryAdapter and now = 0 and st = InMemoryUserRepository_new
        and st' = InMemoryUserRepository_new and i = "JStr ''abc''"
        and model = "DocumentStoreModel (\<lambda>docs. docs)" and m = DocumentStore_new
        and m' = DocumentStore_new
        and err = "JsError ''CastError'' ''Cast to ObjectId failed''"]
  by (simp add: InMemoryAdapter_def InMemory_findById_def InMemoryUserRepository_new_def
        DocumentStoreModel_def ds_findById_def is_object_id_def)

end
